theory Spec2Isabelle
  imports Main "HOL-Library.Word" "HOL-Library.Signed_Division"
begin

section \<open>The time window of package wallclock\<close>

text \<open>
  A Go \<^verbatim>\<open>time.Time\<close> is read as the instant it denotes, in nanoseconds. \<^verbatim>\<open>Before\<close> and
  \<^verbatim>\<open>After\<close> compare instants strictly.
\<close>

type_synonym Time = int

definition Before :: "Time \<Rightarrow> Time \<Rightarrow> bool" where
  "Before t u = (t < u)"

definition After :: "Time \<Rightarrow> Time \<Rightarrow> bool" where
  "After t u = (u < t)"

record TimeWindow =
  tw_start :: Time
  tw_end :: Time

definition NewTimeWindow :: "Time \<Rightarrow> Time \<Rightarrow> TimeWindow" where
  "NewTimeWindow start_t end_t = \<lparr>tw_start = start_t, tw_end = end_t\<rparr>"

definition TimeWindow_Start :: "TimeWindow \<Rightarrow> Time" where
  "TimeWindow_Start t = tw_start t"

definition TimeWindow_End :: "TimeWindow \<Rightarrow> Time" where
  "TimeWindow_End t = tw_end t"

text \<open>
  \<^verbatim>\<open>Active\<close> reads the clock twice: \<open>now1\<close> is what the first \<^verbatim>\<open>time.Now()\<close> returns and
  \<open>now2\<close> what the second one returns (the second is only read when the first test holds).
\<close>

definition TimeWindow_Active :: "TimeWindow \<Rightarrow> Time \<Rightarrow> Time \<Rightarrow> bool" where
  "TimeWindow_Active t now1 now2 = (Before (tw_start t) now1 \<and> After (tw_end t) now2)"

section \<open>Machine integers and durations\<close>

text \<open>
  \<^verbatim>\<open>int64\<close> and \<^verbatim>\<open>uint64\<close> are 64-bit words, read with \<open>sint\<close> and \<open>unat\<close>.
  A \<^verbatim>\<open>time.Duration\<close> is an \<^verbatim>\<open>int64\<close> count of nanoseconds; \<^verbatim>\<open>Milliseconds\<close> is
  \<^verbatim>\<open>int64(d) / 1e6\<close>, and Go's integer division truncates towards zero.
\<close>

type_synonym int64 = "64 word"
type_synonym uint64 = "64 word"
type_synonym Duration = int64

definition Milliseconds :: "Duration \<Rightarrow> int64" where
  "Milliseconds d = word_of_int (sint d sdiv 1000000)"

text \<open>The conversion \<^verbatim>\<open>uint64(x)\<close> of an \<^verbatim>\<open>int64\<close>: the value modulo \<open>2 ^ 64\<close>.\<close>

definition uint64 :: "int64 \<Rightarrow> uint64" where
  "uint64 x = word_of_int (sint x)"

text \<open>\<^verbatim>\<open>fmt.Sprintf("%d", n)\<close> for an unsigned \<open>n\<close>: its decimal digits.\<close>

fun decimal :: "nat \<Rightarrow> string" where
  "decimal n =
     (if n < 10 then [''0123456789'' ! n]
      else decimal (n div 10) @ [''0123456789'' ! (n mod 10)])"

definition Sprintf_d :: "uint64 \<Rightarrow> string" where
  "Sprintf_d n = decimal (unat n)"

section \<open>Collaborators of the orchestrator\<close>

datatype error = Error string

text \<open>
  How a call ends: it returns a value, it panics (a nil pointer is dereferenced), the process
  exits (\<^verbatim>\<open>log.Fatal\<close>), or it blocks for ever (a receive on a channel that never delivers).
\<close>

datatype 'a outcome =
    Return 'a
  | Panic
  | Exit nat
  | Blocked

datatype CannonType =
    BEACON_API_ETH_V2_BEACON_BLOCK_ATTESTER_SLASHING
  | BEACON_API_ETH_V2_BEACON_BLOCK_PROPOSER_SLASHING
  | BEACON_API_ETH_V2_BEACON_BLOCK_VOLUNTARY_EXIT
  | BEACON_API_ETH_V2_BEACON_BLOCK_DEPOSIT
  | BEACON_API_ETH_V2_BEACON_BLOCK_BLS_TO_EXECUTION_CHANGE
  | BEACON_API_ETH_V2_BEACON_BLOCK_EXECUTION_TRANSACTION

datatype FieldLogger = FieldLogger string
datatype Metrics = NewMetrics string
datatype CheckpointMetrics = NewCheckpointMetrics string
datatype CoordinatorClient = CoordinatorClient string
datatype EthWallclock = EthWallclock string

text \<open>
  The configuration type of package cannon is declared outside the sources covered here; the
  record holds the fields that \<^verbatim>\<open>cannon.go\<close> reads.
\<close>

record EthereumConfig =
  OverrideNetworkName :: string

datatype CoordinatorConfig = CoordinatorConfig string
datatype DeriverConfig = DeriverConfig bool

record DeriversConfig =
  AttesterSlashingConfig :: DeriverConfig
  ProposerSlashingConfig :: DeriverConfig
  VoluntaryExitConfig :: DeriverConfig
  DepositConfig :: DeriverConfig
  BLSToExecutionConfig :: DeriverConfig
  ExecutionTransactionConfig :: DeriverConfig

record Config =
  Config_Name :: string
  MetricsAddr :: string
  PProfAddr :: "string option"
  Ethereum :: EthereumConfig
  Coordinator :: CoordinatorConfig
  Derivers :: DeriversConfig
  NTPServer :: string
  Labels :: "string \<rightharpoonup> string"

text \<open>
  The beacon node: \<^verbatim>\<open>Metadata().Network\<close> is a pointer that may be nil, \<^verbatim>\<open>Client(ctx)\<close> and
  \<^verbatim>\<open>NodeVersion(ctx)\<close> are what the node answers.
\<close>

record Network =
  Network_Name :: string
  Network_ID :: uint64

record Metadata =
  Metadata_Network :: "Network option"
  Metadata_Client :: string
  Metadata_NodeVersion :: string
  Metadata_Wallclock :: EthWallclock

record BeaconNode =
  BeaconNode_Name :: string
  BeaconNode_Metadata :: Metadata

record ClientMeta_Ethereum_Network =
  CMNetwork_Name :: string
  CMNetwork_Id :: uint64

record ClientMeta_Ethereum_Consensus =
  Consensus_Implementation :: string
  Consensus_Version :: string

datatype ClientMeta_Ethereum_Execution = ClientMeta_Ethereum_Execution

record ClientMeta_Ethereum =
  CM_Network :: "ClientMeta_Ethereum_Network option"
  CM_Execution :: ClientMeta_Ethereum_Execution
  CM_Consensus :: ClientMeta_Ethereum_Consensus

record ClientMeta =
  CM_Name :: string
  CM_Version :: string
  CM_Id :: string
  CM_Implementation :: string
  CM_Os :: string
  CM_ClockDrift :: uint64
  CM_Ethereum :: ClientMeta_Ethereum
  CM_Labels :: "string \<rightharpoonup> string"

text \<open>
  Modelled from the spec: the event envelope of package xatu, which is not among the sources
  covered here: an event-type tag, the meta with the client decoration and the event time, and the
  type-specific data.
\<close>

record DecoratedEvent =
  Event_Type :: CannonType
  Event_Client :: ClientMeta
  Event_DateTime :: Time
  Event_Data :: string

text \<open>
  A sink is an interface value. Within one operation of the orchestrator every method of a
  sink is called at most once, so the sink's behaviour there is the answer it gives.
\<close>

record Sink =
  Sink_Type :: string
  Sink_Start :: "error option"
  Sink_Stop :: "error option"
  Sink_HandleNewDecoratedEvents :: "DecoratedEvent list \<Rightarrow> error option"

text \<open>
  Modelled from the spec: the checkpoint iterator of package iterator, which is not among the
  sources covered here. It is constructed with the network name and id, the event-type tag, the
  coordinator, the wallclock, the beacon and the checkpoint name; the record keeps the
  arguments that \<^verbatim>\<open>cannon.go\<close> passes to \<^verbatim>\<open>NewCheckpointIterator\<close>.
\<close>

record CheckpointIterator =
  It_log :: FieldLogger
  It_networkName :: string
  It_networkID :: string
  It_cannonType :: CannonType
  It_coordinatorClient :: CoordinatorClient
  It_wallclock :: EthWallclock
  It_metrics :: CheckpointMetrics
  It_beacon :: BeaconNode
  It_checkpointName :: string

definition NewCheckpointIterator ::
  "FieldLogger \<Rightarrow> string \<Rightarrow> string \<Rightarrow> CannonType \<Rightarrow> CoordinatorClient \<Rightarrow> EthWallclock \<Rightarrow>
   CheckpointMetrics \<Rightarrow> BeaconNode \<Rightarrow> string \<Rightarrow> CheckpointIterator" where
  "NewCheckpointIterator lg networkName networkID cannonType coord wallclock ms bcn checkpointName =
     \<lparr>It_log = lg, It_networkName = networkName, It_networkID = networkID,
      It_cannonType = cannonType, It_coordinatorClient = coord, It_wallclock = wallclock,
      It_metrics = ms, It_beacon = bcn, It_checkpointName = checkpointName\<rparr>"

datatype DeriverKind =
    AttesterSlashingDeriver
  | ProposerSlashingDeriver
  | VoluntaryExitDeriver
  | DepositDeriver
  | BLSToExecutionChangeDeriver
  | ExecutionTransactionDeriver

record EventDeriver =
  D_kind :: DeriverKind
  D_log :: FieldLogger
  D_config :: DeriverConfig
  D_iterator :: CheckpointIterator
  D_beacon :: BeaconNode
  D_clientMeta :: ClientMeta

text \<open>
  Modelled from the spec: the six constructors of package deriver/beacon/eth/v2, which is not
  among the sources covered here. Each keeps what it is given; the derivers differ only in what they
  extract from a block.
\<close>

definition NewDeriver ::
  "DeriverKind \<Rightarrow> FieldLogger \<Rightarrow> DeriverConfig \<Rightarrow> CheckpointIterator \<Rightarrow> BeaconNode \<Rightarrow> ClientMeta \<Rightarrow>
   EventDeriver" where
  "NewDeriver k lg cfg it bcn meta =
     \<lparr>D_kind = k, D_log = lg, D_config = cfg, D_iterator = it, D_beacon = bcn,
      D_clientMeta = meta\<rparr>"

definition NewAttesterSlashingDeriver where
  "NewAttesterSlashingDeriver = NewDeriver AttesterSlashingDeriver"

definition NewProposerSlashingDeriver where
  "NewProposerSlashingDeriver = NewDeriver ProposerSlashingDeriver"

definition NewVoluntaryExitDeriver where
  "NewVoluntaryExitDeriver = NewDeriver VoluntaryExitDeriver"

definition NewDepositDeriver where
  "NewDepositDeriver = NewDeriver DepositDeriver"

definition NewBLSToExecutionChangeDeriver where
  "NewBLSToExecutionChangeDeriver = NewDeriver BLSToExecutionChangeDeriver"

definition NewExecutionTransactionDeriver where
  "NewExecutionTransactionDeriver = NewDeriver ExecutionTransactionDeriver"

text \<open>
  Modelled from the spec: \<^verbatim>\<open>CannonType()\<close> of a deriver, its event-type tag.
\<close>

fun Deriver_CannonType :: "EventDeriver \<Rightarrow> CannonType" where
  "Deriver_CannonType d =
     (case D_kind d of
        AttesterSlashingDeriver \<Rightarrow> BEACON_API_ETH_V2_BEACON_BLOCK_ATTESTER_SLASHING
      | ProposerSlashingDeriver \<Rightarrow> BEACON_API_ETH_V2_BEACON_BLOCK_PROPOSER_SLASHING
      | VoluntaryExitDeriver \<Rightarrow> BEACON_API_ETH_V2_BEACON_BLOCK_VOLUNTARY_EXIT
      | DepositDeriver \<Rightarrow> BEACON_API_ETH_V2_BEACON_BLOCK_DEPOSIT
      | BLSToExecutionChangeDeriver \<Rightarrow> BEACON_API_ETH_V2_BEACON_BLOCK_BLS_TO_EXECUTION_CHANGE
      | ExecutionTransactionDeriver \<Rightarrow> BEACON_API_ETH_V2_BEACON_BLOCK_EXECUTION_TRANSACTION)"

text \<open>The scheduler: the jobs registered with their interval, and whether it runs.\<close>

datatype Job = Job_syncClockDrift

record Scheduler =
  Scheduler_jobs :: "(string \<times> Job) list"
  Scheduler_running :: bool

definition NewScheduler :: Scheduler where
  "NewScheduler = \<lparr>Scheduler_jobs = [], Scheduler_running = False\<rparr>"

section \<open>The orchestrator of package cannon\<close>

text \<open>
  The \<^verbatim>\<open>Cannon\<close> struct. A field that is a pointer to an object holds the state of that
  object; \<^verbatim>\<open>eventDerivers\<close> is a slice that may be nil (\<open>None\<close>); the identifier is kept in
  the form that \<^verbatim>\<open>id.String()\<close> gives.
\<close>

record Cannon =
  Config :: Config
  sinks :: "Sink list"
  beacon :: BeaconNode
  clockDrift :: Duration
  log :: FieldLogger
  id' :: string
  metrics :: Metrics
  scheduler :: Scheduler
  eventDerivers :: "EventDeriver list option"
  coordinatorClient :: CoordinatorClient

text \<open>
  What an operation does to the world outside the \<^verbatim>\<open>Cannon\<close> value, in the order it does it:
  log lines, calls of sink methods, metric updates, registrations and goroutines started.
\<close>

datatype LogLevel = InfoLevel | ErrorLevel | FatalLevel

datatype FieldValue =
    FString string
  | FInt nat
  | FDuration Duration
  | FCannonType CannonType
  | FDeriverName DeriverKind

record LogEntry =
  Log_level :: LogLevel
  Log_error :: "error option"
  Log_fields :: "(string \<times> FieldValue) list"
  Log_message :: string

datatype Signal = SIGTERM | SIGINT

datatype Effect =
    Log LogEntry
  | Call_Sink_Start Sink
  | Call_Sink_Stop Sink
  | Call_Sink_HandleNewDecoratedEvents Sink "DecoratedEvent list"
  | Call_AddDecoratedEvent nat DecoratedEvent string
  | Call_SetDeriverLocation uint64 CannonType string
  | Call_Beacon_OnReady
  | Call_Beacon_Start
  | Call_Scheduler_StartAsync
  | Call_Deriver_OnEventsDerived EventDeriver
  | Call_Deriver_OnLocationUpdated EventDeriver
  | Call_Deriver_Start EventDeriver
  | Call_Signal_Notify "Signal list"
  | Go_ServeMetrics string
  | Go_ServePProf string

text \<open>
  Values of other packages that \<^verbatim>\<open>cannon.go\<close> reads: \<^verbatim>\<open>xatu.Full()\<close>, \<^verbatim>\<open>xatu.Short()\<close>,
  \<^verbatim>\<open>xatu.Implementation\<close> and \<^verbatim>\<open>runtime.GOOS\<close>.
\<close>

record Build =
  xatu_Full :: string
  xatu_Short :: string
  xatu_Implementation :: string
  runtime_GOOS :: string

text \<open>
  What \<^verbatim>\<open>New\<close> calls outside this file: \<^verbatim>\<open>Config.Validate\<close>, \<^verbatim>\<open>Config.CreateSinks\<close>,
  \<^verbatim>\<open>ethereum.NewBeaconNode\<close>, \<^verbatim>\<open>coordinator.New\<close> and \<^verbatim>\<open>uuid.New\<close>.
\<close>

record Deps =
  Config_Validate :: "Config \<Rightarrow> error option"
  Config_CreateSinks :: "Config \<Rightarrow> FieldLogger \<Rightarrow> error + Sink list"
  ethereum_NewBeaconNode :: "string \<Rightarrow> EthereumConfig \<Rightarrow> FieldLogger \<Rightarrow> error + BeaconNode"
  coordinator_New :: "CoordinatorConfig \<Rightarrow> FieldLogger \<Rightarrow> error + CoordinatorClient"
  uuid_New :: string

text \<open>
  \<^verbatim>\<open>New\<close> returns \<^verbatim>\<open>(nil, err)\<close>, here \<open>Inl err\<close>, or \<^verbatim>\<open>(&Cannon{...}, nil)\<close>, here \<open>Inr\<close>
  of the value. The configuration is a pointer: \<open>None\<close> is nil.
\<close>

definition New :: "Deps \<Rightarrow> FieldLogger \<Rightarrow> Config option \<Rightarrow> error + Cannon" where
  "New deps lg config =
     (case config of
        None \<Rightarrow> Inl (Error ''config is required'')
      | Some cfg \<Rightarrow>
          (case Config_Validate deps cfg of
             Some err \<Rightarrow> Inl err
           | None \<Rightarrow>
               (case Config_CreateSinks deps cfg lg of
                  Inl err \<Rightarrow> Inl err
                | Inr snks \<Rightarrow>
                    (case ethereum_NewBeaconNode deps (Config_Name cfg) (Ethereum cfg) lg of
                       Inl err \<Rightarrow> Inl err
                     | Inr bcn \<Rightarrow>
                         (case coordinator_New deps (Coordinator cfg) lg of
                            Inl err \<Rightarrow> Inl err
                          | Inr coord \<Rightarrow>
                              Inr \<lparr>Config = cfg,
                                   sinks = snks,
                                   beacon = bcn,
                                   clockDrift = 0,
                                   log = lg,
                                   id' = uuid_New deps,
                                   metrics = NewMetrics ''xatu_cannon'',
                                   scheduler = NewScheduler,
                                   eventDerivers = None,
                                   coordinatorClient = coord\<rparr>)))))"

definition ServeMetrics :: "Cannon \<Rightarrow> Effect list \<times> error option" where
  "ServeMetrics c = ([Go_ServeMetrics (MetricsAddr (Config c))], None)"

text \<open>\<^verbatim>\<open>ServePProf\<close> dereferences \<^verbatim>\<open>c.Config.PProfAddr\<close>: a nil pointer panics.\<close>

definition ServePProf :: "Cannon \<Rightarrow> Effect list \<times> error option outcome" where
  "ServePProf c =
     (case PProfAddr (Config c) of
        None \<Rightarrow> ([], Panic)
      | Some addr \<Rightarrow> ([Go_ServePProf addr], Return None))"

definition createNewClientMeta :: "Build \<Rightarrow> Cannon \<Rightarrow> error + ClientMeta" where
  "createNewClientMeta b c =
     (let network = Metadata_Network (BeaconNode_Metadata (beacon c));
          networkMeta =
            (case network of
               None \<Rightarrow> None
             | Some nw \<Rightarrow>
                 (let nm = \<lparr>CMNetwork_Name = Network_Name nw, CMNetwork_Id = Network_ID nw\<rparr>
                  in if OverrideNetworkName (Ethereum (Config c)) \<noteq> []
                     then Some (nm\<lparr>CMNetwork_Name := OverrideNetworkName (Ethereum (Config c))\<rparr>)
                     else Some nm))
      in Inr \<lparr>CM_Name = Config_Name (Config c),
              CM_Version = xatu_Short b,
              CM_Id = id' c,
              CM_Implementation = xatu_Implementation b,
              CM_Os = runtime_GOOS b,
              CM_ClockDrift = uint64 (Milliseconds (clockDrift c)),
              CM_Ethereum =
                \<lparr>CM_Network = networkMeta,
                 CM_Execution = ClientMeta_Ethereum_Execution,
                 CM_Consensus =
                   \<lparr>Consensus_Implementation = Metadata_Client (BeaconNode_Metadata (beacon c)),
                    Consensus_Version = Metadata_NodeVersion (BeaconNode_Metadata (beacon c))\<rparr>\<rparr>,
              CM_Labels = Labels (Config c)\<rparr>)"

text \<open>
  The answer of \<^verbatim>\<open>ntp.Query\<close>: an error, or a response with its clock offset and with what
  its \<^verbatim>\<open>Validate\<close> returns.
\<close>

record NTP_Response =
  ClockOffset :: Duration
  Response_Validate :: "error option"

definition syncClockDrift ::
  "(string \<Rightarrow> error + NTP_Response) \<Rightarrow> Cannon \<Rightarrow> Effect list \<times> Cannon \<times> error option" where
  "syncClockDrift ntp_Query c =
     (case ntp_Query (NTPServer (Config c)) of
        Inl err \<Rightarrow> ([], c, Some err)
      | Inr response \<Rightarrow>
          (case Response_Validate response of
             Some err \<Rightarrow> ([], c, Some err)
           | None \<Rightarrow>
               (let c' = c\<lparr>clockDrift := ClockOffset response\<rparr>
                in ([Log \<lparr>Log_level = InfoLevel, Log_error = None,
                          Log_fields = [(''drift'', FDuration (clockDrift c'))],
                          Log_message = ''Updated clock drift''\<rparr>],
                    c', None))))"

text \<open>The function that \<^verbatim>\<open>startCrons\<close> hands to the scheduler.\<close>

definition startCrons_job ::
  "(string \<Rightarrow> error + NTP_Response) \<Rightarrow> Cannon \<Rightarrow> Effect list \<times> Cannon" where
  "startCrons_job ntp_Query c =
     (case syncClockDrift ntp_Query c of
        (fx, c', Some err) \<Rightarrow>
          (fx @ [Log \<lparr>Log_level = ErrorLevel, Log_error = Some err, Log_fields = [],
                      Log_message = ''Failed to sync clock drift''\<rparr>], c')
      | (fx, c', None) \<Rightarrow> (fx, c'))"

text \<open>
  \<^verbatim>\<open>scheduler.Every("5m").Do(job)\<close> may refuse the job (\<open>scheduler_Do\<close> gives its error for
  the interval); otherwise the job is registered under that interval.
\<close>

definition startCrons ::
  "(string \<Rightarrow> error option) \<Rightarrow> Cannon \<Rightarrow> Effect list \<times> Cannon \<times> error option" where
  "startCrons scheduler_Do c =
     (case scheduler_Do ''5m'' of
        Some err \<Rightarrow> ([], c, Some err)
      | None \<Rightarrow>
          ([Call_Scheduler_StartAsync],
           c\<lparr>scheduler :=
               \<lparr>Scheduler_jobs = Scheduler_jobs (scheduler c) @ [(''5m'', Job_syncClockDrift)],
                Scheduler_running = True\<rparr>\<rparr>,
           None))"

text \<open>The first loop of \<^verbatim>\<open>handleNewDecoratedEvents\<close>: every sink, in order.\<close>

fun handleNewDecoratedEvents_sinks :: "Sink list \<Rightarrow> DecoratedEvent list \<Rightarrow> Effect list" where
  "handleNewDecoratedEvents_sinks [] events = []"
| "handleNewDecoratedEvents_sinks (sink # rest) events =
     Call_Sink_HandleNewDecoratedEvents sink events #
     (case Sink_HandleNewDecoratedEvents sink events of
        Some err \<Rightarrow>
          [Log \<lparr>Log_level = ErrorLevel, Log_error = Some err,
                Log_fields = [(''sink'', FString (Sink_Type sink)),
                              (''events'', FInt (length events))],
                Log_message = ''Failed to send events to sink''\<rparr>]
      | None \<Rightarrow> []) @
     handleNewDecoratedEvents_sinks rest events"

text \<open>
  The second loop: one metric update per event. Its argument
  \<^verbatim>\<open>c.beacon.Metadata().Network.Name\<close> dereferences the network pointer.
\<close>

fun handleNewDecoratedEvents_metrics ::
  "Network option \<Rightarrow> DecoratedEvent list \<Rightarrow> Effect list \<times> unit outcome" where
  "handleNewDecoratedEvents_metrics network [] = ([], Return ())"
| "handleNewDecoratedEvents_metrics network (event # rest) =
     (case network of
        None \<Rightarrow> ([], Panic)
      | Some nw \<Rightarrow>
          (case handleNewDecoratedEvents_metrics network rest of
             (fx, r) \<Rightarrow> (Call_AddDecoratedEvent 1 event (Network_Name nw) # fx, r)))"

definition handleNewDecoratedEvents ::
  "Cannon \<Rightarrow> DecoratedEvent list \<Rightarrow> Effect list \<times> error option outcome" where
  "handleNewDecoratedEvents c events =
     (let fx1 = handleNewDecoratedEvents_sinks (sinks c) events
      in case handleNewDecoratedEvents_metrics
                (Metadata_Network (BeaconNode_Metadata (beacon c))) events of
           (fx2, Return u) \<Rightarrow> (fx1 @ fx2, Return None)
         | (fx2, Panic) \<Rightarrow> (fx1 @ fx2, Panic)
         | (fx2, Exit n) \<Rightarrow> (fx1 @ fx2, Exit n)
         | (fx2, Blocked) \<Rightarrow> (fx1 @ fx2, Blocked))"

text \<open>
  The callback that the readiness callback registers with \<^verbatim>\<open>OnLocationUpdated\<close>; it
  dereferences the network pointer as well.
\<close>

definition onLocationUpdated ::
  "Cannon \<Rightarrow> EventDeriver \<Rightarrow> uint64 \<Rightarrow> Effect list \<times> error option outcome" where
  "onLocationUpdated c d location =
     (case Metadata_Network (BeaconNode_Metadata (beacon c)) of
        None \<Rightarrow> ([], Panic)
      | Some nw \<Rightarrow>
          ([Call_SetDeriverLocation location (Deriver_CannonType d) (Network_Name nw)],
           Return None))"

text \<open>
  The loop at the end of the readiness callback: for each deriver the two registrations, the
  log line and \<^verbatim>\<open>Start\<close>; \<open>deriver_Start\<close> gives what \<^verbatim>\<open>Start\<close> of a deriver returns, and the
  first error ends the loop.
\<close>

fun startDerivers ::
  "(EventDeriver \<Rightarrow> error option) \<Rightarrow> EventDeriver list \<Rightarrow> Effect list \<times> error option" where
  "startDerivers deriver_Start [] = ([], None)"
| "startDerivers deriver_Start (d # rest) =
     (let fx = [Call_Deriver_OnEventsDerived d,
                Call_Deriver_OnLocationUpdated d,
                Log \<lparr>Log_level = InfoLevel, Log_error = None,
                     Log_fields = [(''deriver'', FDeriverName (D_kind d)),
                                   (''type'', FCannonType (Deriver_CannonType d))],
                     Log_message = ''Starting cannon event deriver''\<rparr>,
                Call_Deriver_Start d]
      in case deriver_Start d of
           Some err \<Rightarrow> (fx, Some err)
         | None \<Rightarrow>
             (case startDerivers deriver_Start rest of
                (fx', r) \<Rightarrow> (fx @ fx', r)))"

text \<open>
  The function that \<^verbatim>\<open>startBeaconBlockProcessor\<close> hands to \<^verbatim>\<open>c.beacon.OnReady\<close>.
\<close>

definition onReady ::
  "Build \<Rightarrow> (EventDeriver \<Rightarrow> error option) \<Rightarrow> Cannon \<Rightarrow>
   Effect list \<times> Cannon \<times> error option outcome" where
  "onReady b deriver_Start c =
     (let fx0 = [Log \<lparr>Log_level = InfoLevel, Log_error = None, Log_fields = [],
                      Log_message = ''Internal beacon node is ready, firing up event derivers''\<rparr>]
      in case Metadata_Network (BeaconNode_Metadata (beacon c)) of
           None \<Rightarrow> (fx0, c, Panic)
         | Some network \<Rightarrow>
             (let networkName = Network_Name network;
                  networkID = Sprintf_d (Network_ID network);
                  wallclock = Metadata_Wallclock (BeaconNode_Metadata (beacon c))
              in case createNewClientMeta b c of
                   Inl err \<Rightarrow> (fx0, c, Return (Some err))
                 | Inr clientMeta \<Rightarrow>
                     (let checkpointIteratorMetrics = NewCheckpointMetrics ''xatu_cannon'';
                          finalizedCheckpoint = ''finalized'';
                          derivers =
                            [NewAttesterSlashingDeriver (log c)
                               (AttesterSlashingConfig (Derivers (Config c)))
                               (NewCheckpointIterator (log c) networkName networkID
                                  BEACON_API_ETH_V2_BEACON_BLOCK_ATTESTER_SLASHING
                                  (coordinatorClient c) wallclock checkpointIteratorMetrics
                                  (beacon c) finalizedCheckpoint)
                               (beacon c) clientMeta,
                             NewProposerSlashingDeriver (log c)
                               (ProposerSlashingConfig (Derivers (Config c)))
                               (NewCheckpointIterator (log c) networkName networkID
                                  BEACON_API_ETH_V2_BEACON_BLOCK_PROPOSER_SLASHING
                                  (coordinatorClient c) wallclock checkpointIteratorMetrics
                                  (beacon c) finalizedCheckpoint)
                               (beacon c) clientMeta,
                             NewVoluntaryExitDeriver (log c)
                               (VoluntaryExitConfig (Derivers (Config c)))
                               (NewCheckpointIterator (log c) networkName networkID
                                  BEACON_API_ETH_V2_BEACON_BLOCK_VOLUNTARY_EXIT
                                  (coordinatorClient c) wallclock checkpointIteratorMetrics
                                  (beacon c) finalizedCheckpoint)
                               (beacon c) clientMeta,
                             NewDepositDeriver (log c)
                               (DepositConfig (Derivers (Config c)))
                               (NewCheckpointIterator (log c) networkName networkID
                                  BEACON_API_ETH_V2_BEACON_BLOCK_DEPOSIT
                                  (coordinatorClient c) wallclock checkpointIteratorMetrics
                                  (beacon c) finalizedCheckpoint)
                               (beacon c) clientMeta,
                             NewBLSToExecutionChangeDeriver (log c)
                               (BLSToExecutionConfig (Derivers (Config c)))
                               (NewCheckpointIterator (log c) networkName networkID
                                  BEACON_API_ETH_V2_BEACON_BLOCK_BLS_TO_EXECUTION_CHANGE
                                  (coordinatorClient c) wallclock checkpointIteratorMetrics
                                  (beacon c) finalizedCheckpoint)
                               (beacon c) clientMeta,
                             NewExecutionTransactionDeriver (log c)
                               (ExecutionTransactionConfig (Derivers (Config c)))
                               (NewCheckpointIterator (log c) networkName networkID
                                  BEACON_API_ETH_V2_BEACON_BLOCK_EXECUTION_TRANSACTION
                                  (coordinatorClient c) wallclock checkpointIteratorMetrics
                                  (beacon c) finalizedCheckpoint)
                               (beacon c) clientMeta];
                          c' = c\<lparr>eventDerivers := Some derivers\<rparr>
                      in case startDerivers deriver_Start derivers of
                           (fx, r) \<Rightarrow> (fx0 @ fx, c', Return r))))"

definition startBeaconBlockProcessor :: "Cannon \<Rightarrow> Effect list \<times> error option" where
  "startBeaconBlockProcessor c = ([Call_Beacon_OnReady], None)"

text \<open>The two loops of \<^verbatim>\<open>Start\<close> over the sinks: the first error ends the loop.\<close>

fun Start_sinks :: "Sink list \<Rightarrow> Effect list \<times> error option" where
  "Start_sinks [] = ([], None)"
| "Start_sinks (sink # rest) =
     (case Sink_Start sink of
        Some err \<Rightarrow> ([Call_Sink_Start sink], Some err)
      | None \<Rightarrow>
          (case Start_sinks rest of (fx, r) \<Rightarrow> (Call_Sink_Start sink # fx, r)))"

fun Stop_sinks :: "Sink list \<Rightarrow> Effect list \<times> error option" where
  "Stop_sinks [] = ([], None)"
| "Stop_sinks (sink # rest) =
     (case Sink_Stop sink of
        Some err \<Rightarrow> ([Call_Sink_Stop sink], Some err)
      | None \<Rightarrow>
          (case Stop_sinks rest of (fx, r) \<Rightarrow> (Call_Sink_Stop sink # fx, r)))"

text \<open>
  What \<^verbatim>\<open>Start\<close> meets outside: whether the scheduler takes the job, what \<^verbatim>\<open>c.beacon.Start\<close>
  returns, and the signal that arrives on the channel (\<open>None\<close>: no signal ever arrives and
  the receive blocks).
\<close>

record StartEnv =
  Env_scheduler_Do :: "string \<Rightarrow> error option"
  Env_beacon_Start :: "error option"
  Env_signal :: "Signal option"

text \<open>What \<^verbatim>\<open>%v\<close> prints for a signal: its \<^verbatim>\<open>String()\<close>.\<close>

fun Signal_String :: "Signal \<Rightarrow> string" where
  "Signal_String SIGTERM = ''terminated''"
| "Signal_String SIGINT = ''interrupt''"

text \<open>The part of \<^verbatim>\<open>Start\<close> from the signal channel on.\<close>

definition Start_shutdown :: "Cannon \<Rightarrow> Signal option \<Rightarrow> Effect list \<times> error option outcome" where
  "Start_shutdown c signal =
     (case signal of
        None \<Rightarrow> ([Call_Signal_Notify [SIGTERM, SIGINT]], Blocked)
      | Some sig \<Rightarrow>
          (case Stop_sinks (sinks c) of
             (fx, r) \<Rightarrow>
               ([Call_Signal_Notify [SIGTERM, SIGINT],
                 Log \<lparr>Log_level = InfoLevel, Log_error = None, Log_fields = [],
                      Log_message = ''Caught signal: '' @ Signal_String sig\<rparr>,
                 Log \<lparr>Log_level = InfoLevel, Log_error = None, Log_fields = [],
                      Log_message = ''Flushing sinks''\<rparr>] @ fx,
                Return r)))"

definition Start ::
  "Build \<Rightarrow> StartEnv \<Rightarrow> Cannon \<Rightarrow> Effect list \<times> Cannon \<times> error option outcome" where
  "Start b env c =
     (case ServeMetrics c of
        (fx1, Some err) \<Rightarrow> (fx1, c, Return (Some err))
      | (fx1, None) \<Rightarrow>
     (case (if PProfAddr (Config c) \<noteq> None then ServePProf c else ([], Return None)) of
        (fx2, Panic) \<Rightarrow> (fx1 @ fx2, c, Panic)
      | (fx2, Exit n) \<Rightarrow> (fx1 @ fx2, c, Exit n)
      | (fx2, Blocked) \<Rightarrow> (fx1 @ fx2, c, Blocked)
      | (fx2, Return (Some err)) \<Rightarrow> (fx1 @ fx2, c, Return (Some err))
      | (fx2, Return None) \<Rightarrow>
     (case startBeaconBlockProcessor c of
        (fx3, Some err) \<Rightarrow> (fx1 @ fx2 @ fx3, c, Return (Some err))
      | (fx3, None) \<Rightarrow>
     (let fx4 = [Log \<lparr>Log_level = InfoLevel, Log_error = None,
                      Log_fields = [(''version'', FString (xatu_Full b)),
                                    (''id'', FString (id' c))],
                      Log_message = ''Starting Xatu in cannon mode''\<rparr>]
      in case startCrons (Env_scheduler_Do env) c of
        (fx5, c5, Some err) \<Rightarrow>
          (fx1 @ fx2 @ fx3 @ fx4 @ fx5 @
           [Log \<lparr>Log_level = FatalLevel, Log_error = Some err, Log_fields = [],
                 Log_message = ''Failed to start crons''\<rparr>],
           c5, Exit 1)
      | (fx5, c5, None) \<Rightarrow>
     (case Start_sinks (sinks c5) of
        (fx6, Some err) \<Rightarrow> (fx1 @ fx2 @ fx3 @ fx4 @ fx5 @ fx6, c5, Return (Some err))
      | (fx6, None) \<Rightarrow>
     (let fx7 = (if OverrideNetworkName (Ethereum (Config c5)) \<noteq> []
                 then [Log \<lparr>Log_level = InfoLevel, Log_error = None,
                            Log_fields = [(''network'',
                                           FString (OverrideNetworkName (Ethereum (Config c5))))],
                            Log_message = ''Overriding network name''\<rparr>]
                 else [])
      in case Env_beacon_Start env of
        Some err \<Rightarrow>
          (fx1 @ fx2 @ fx3 @ fx4 @ fx5 @ fx6 @ fx7 @ [Call_Beacon_Start], c5, Return (Some err))
      | None \<Rightarrow>
     (case Start_shutdown c5 (Env_signal env) of
        (fx8, r) \<Rightarrow>
          (fx1 @ fx2 @ fx3 @ fx4 @ fx5 @ fx6 @ fx7 @ [Call_Beacon_Start] @ fx8, c5, r))))))))"

section \<open>Reading a list of effects\<close>

text \<open>The batches handed to sinks, the log entries, the sinks stopped and started, in order.\<close>

fun sink_batches :: "Effect list \<Rightarrow> (Sink \<times> DecoratedEvent list) list" where
  "sink_batches [] = []"
| "sink_batches (Call_Sink_HandleNewDecoratedEvents s batch # fx) = (s, batch) # sink_batches fx"
| "sink_batches (e # fx) = sink_batches fx"

fun log_entries :: "Effect list \<Rightarrow> LogEntry list" where
  "log_entries [] = []"
| "log_entries (Log entry # fx) = entry # log_entries fx"
| "log_entries (e # fx) = log_entries fx"

fun sinks_stopped :: "Effect list \<Rightarrow> Sink list" where
  "sinks_stopped [] = []"
| "sinks_stopped (Call_Sink_Stop s # fx) = s # sinks_stopped fx"
| "sinks_stopped (e # fx) = sinks_stopped fx"

fun derivers_touched :: "Effect list \<Rightarrow> EventDeriver list" where
  "derivers_touched [] = []"
| "derivers_touched (Call_Deriver_OnEventsDerived d # fx) = d # derivers_touched fx"
| "derivers_touched (Call_Deriver_OnLocationUpdated d # fx) = d # derivers_touched fx"
| "derivers_touched (Call_Deriver_Start d # fx) = d # derivers_touched fx"
| "derivers_touched (e # fx) = derivers_touched fx"

text \<open>The log entry that \<^verbatim>\<open>handleNewDecoratedEvents\<close> writes for a sink that failed.\<close>

definition sink_failure_entry :: "Sink \<Rightarrow> DecoratedEvent list \<Rightarrow> LogEntry" where
  "sink_failure_entry sink events =
     \<lparr>Log_level = ErrorLevel, Log_error = Sink_HandleNewDecoratedEvents sink events,
      Log_fields = [(''sink'', FString (Sink_Type sink)), (''events'', FInt (length events))],
      Log_message = ''Failed to send events to sink''\<rparr>"

section \<open>Example values\<close>

definition ex_build :: Build where
  "ex_build = \<lparr>xatu_Full = ''xatu/v0.0.1'', xatu_Short = ''v0.0.1'',
               xatu_Implementation = ''Xatu'', runtime_GOOS = ''linux''\<rparr>"

definition ex_config :: Config where
  "ex_config =
     \<lparr>Config_Name = ''cannon-1'', MetricsAddr = '':9090'', PProfAddr = None,
      Ethereum = \<lparr>OverrideNetworkName = []\<rparr>,
      Coordinator = CoordinatorConfig ''localhost:8080'',
      Derivers = \<lparr>AttesterSlashingConfig = DeriverConfig True,
                  ProposerSlashingConfig = DeriverConfig True,
                  VoluntaryExitConfig = DeriverConfig True,
                  DepositConfig = DeriverConfig True,
                  BLSToExecutionConfig = DeriverConfig True,
                  ExecutionTransactionConfig = DeriverConfig True\<rparr>,
      NTPServer = ''time.google.com'', Labels = Map.empty\<rparr>"

definition ex_beacon :: BeaconNode where
  "ex_beacon =
     \<lparr>BeaconNode_Name = ''cannon-1'',
      BeaconNode_Metadata =
        \<lparr>Metadata_Network = Some \<lparr>Network_Name = ''mainnet'', Network_ID = 1\<rparr>,
         Metadata_Client = ''lighthouse'', Metadata_NodeVersion = ''v4.5.0'',
         Metadata_Wallclock = EthWallclock ''mainnet''\<rparr>\<rparr>"

definition ex_sink_failing :: Sink where
  "ex_sink_failing =
     \<lparr>Sink_Type = ''http'', Sink_Start = None, Sink_Stop = Some (Error ''flush failed''),
      Sink_HandleNewDecoratedEvents = (\<lambda>events. Some (Error ''unreachable''))\<rparr>"

definition ex_sink_ok :: Sink where
  "ex_sink_ok =
     \<lparr>Sink_Type = ''stdout'', Sink_Start = None, Sink_Stop = None,
      Sink_HandleNewDecoratedEvents = (\<lambda>events. None)\<rparr>"

definition ex_cannon :: Cannon where
  "ex_cannon =
     \<lparr>Config = ex_config, sinks = [ex_sink_failing, ex_sink_ok], beacon = ex_beacon,
      clockDrift = 0, log = FieldLogger ''cannon'', id' = ''7c9e6679'',
      metrics = NewMetrics ''xatu_cannon'', scheduler = NewScheduler, eventDerivers = None,
      coordinatorClient = CoordinatorClient ''localhost:8080''\<rparr>"

definition ex_deps :: Deps where
  "ex_deps =
     \<lparr>Config_Validate = (\<lambda>cfg. if NTPServer cfg = [] then Some (Error ''ntp server is required'')
                                else None),
      Config_CreateSinks = (\<lambda>cfg lg. Inr [ex_sink_failing, ex_sink_ok]),
      ethereum_NewBeaconNode = (\<lambda>name cfg lg. Inr ex_beacon),
      coordinator_New = (\<lambda>cfg lg. Inr (CoordinatorClient ''localhost:8080'')),
      uuid_New = ''7c9e6679''\<rparr>"

definition ex_env :: StartEnv where
  "ex_env = \<lparr>Env_scheduler_Do = (\<lambda>interval. None), Env_beacon_Start = None,
             Env_signal = Some SIGINT\<rparr>"

definition ex_ntp_Query :: "string \<Rightarrow> error + NTP_Response" where
  "ex_ntp_Query server = Inr \<lparr>ClockOffset = 250000000, Response_Validate = None\<rparr>"

definition ex_event :: DecoratedEvent where
  "ex_event =
     \<lparr>Event_Type = BEACON_API_ETH_V2_BEACON_BLOCK_DEPOSIT,
      Event_Client = projr (createNewClientMeta ex_build ex_cannon),
      Event_DateTime = 1700000000, Event_Data = ''deposit''\<rparr>"

text \<open>The state after the readiness callback has fired on \<open>ex_cannon\<close> and every deriver started.\<close>

definition ex_ready :: Cannon where
  "ex_ready = fst (snd (onReady ex_build (\<lambda>d. None) ex_cannon))"

section \<open>The time window\<close>

text \<open>
  Claim C9. For all times \<open>s\<close> and \<open>e\<close>, the window built by \<^verbatim>\<open>NewTimeWindow(s, e)\<close> has
  \<^verbatim>\<open>Start() = s\<close> and \<^verbatim>\<open>End() = e\<close>, and \<^verbatim>\<open>Active()\<close> returns true exactly when the current
  time is strictly after \<open>s\<close> and strictly before \<open>e\<close>; a window whose end is not after its
  start is never active. The current time of a call is what its two clock readings return:
  when both return the same instant \<open>now\<close> the answer is \<open>s < now \<and> now < e\<close>, and for
  readings \<open>now1 \<le> now2\<close> the answer is true exactly when every instant from \<open>now1\<close> to
  \<open>now2\<close> lies strictly between \<open>s\<close> and \<open>e\<close>.
\<close>

theorem TimeWindow_Active_iff:
  assumes "now1 \<le> now2"
  shows "TimeWindow_Start (NewTimeWindow s e) = s \<and>
    TimeWindow_End (NewTimeWindow s e) = e \<and>
    (TimeWindow_Active (NewTimeWindow s e) now now \<longleftrightarrow> s < now \<and> now < e) \<and>
    (TimeWindow_Active (NewTimeWindow s e) now1 now2 \<longleftrightarrow>
       (\<forall>t \<in> {now1..now2}. s < t \<and> t < e)) \<and>
    (e \<le> s \<longrightarrow> \<not> TimeWindow_Active (NewTimeWindow s e) now1 now2)"
  using assms
  by (auto simp: TimeWindow_Start_def TimeWindow_End_def TimeWindow_Active_def NewTimeWindow_def
      Before_def After_def)

theorem TimeWindow_Active_iff_witness:
  "(12::int) \<le> 13 \<and> TimeWindow_Active (NewTimeWindow 10 20) 12 13"
proof -
  have h: "(12::int) \<le> 13" by simp
  have "\<forall>t \<in> {12..13::int}. 10 < t \<and> t < 20" by auto
  with TimeWindow_Active_iff [OF h, of 10 20] show ?thesis by simp
qed

section \<open>The clock drift stamped into the client meta\<close>

lemma sint_Milliseconds: "sint (Milliseconds d) = sint d sdiv 1000000"
proof -
  have lo: "- (2 ^ 63) \<le> sint d" using sint_ge [of d] by simp
  have hi: "sint d < 2 ^ 63" using sint_lt [of d] by simp
  have "- (2 ^ 63) \<le> sint d sdiv 1000000 \<and> sint d sdiv 1000000 < 2 ^ 63"
    using lo hi by (auto simp: signed_divide_int_def sgn_if abs_if)
  then show ?thesis
    unfolding Milliseconds_def
    by (simp add: sint_sbintrunc' signed_take_bit_int_eq_self)
qed

lemma uint64_same_bits: "uint64 x = x"
  by (simp add: uint64_def)

lemma uint_uint64: "uint (uint64 x) = sint x mod 2 ^ 64"
  by (simp add: uint64_def uint_sint take_bit_eq_mod)

lemma sdiv_million_neg: "k \<le> - 1000000 \<Longrightarrow> (k::int) sdiv 1000000 = - ((- k) div 1000000)"
  by (simp add: signed_divide_int_def sgn_if abs_if)

lemma sdiv_million_small: "- 1000000 < k \<Longrightarrow> k < 0 \<Longrightarrow> (k::int) sdiv 1000000 = 0"
  by (simp add: signed_divide_int_def sgn_if abs_if)

lemma sdiv_million_pos: "0 \<le> k \<Longrightarrow> (k::int) sdiv 1000000 = k div 1000000"
  by (simp add: signed_divide_int_def sgn_if abs_if)

lemma uint_drift_neg:
  assumes "sint d \<le> - 1000000"
  shows "uint (uint64 (Milliseconds d)) = 2 ^ 64 - (- sint d) div 1000000"
    and "2 ^ 63 \<le> uint (uint64 (Milliseconds d))"
proof -
  let ?q = "(- sint d) div 1000000"
  have lo: "- (2 ^ 63) \<le> sint d" using sint_ge [of d] by simp
  have q1: "1 \<le> ?q" using assms by simp
  have q2: "?q \<le> 2 ^ 63" using lo by simp
  have "uint (uint64 (Milliseconds d)) = (- ?q) mod 2 ^ 64"
    by (simp add: uint_uint64 sint_Milliseconds sdiv_million_neg [OF assms])
  also have "\<dots> = 2 ^ 64 - ?q"
    using q1 q2 by (simp add: zmod_zminus1_eq_if)
  finally show "uint (uint64 (Milliseconds d)) = 2 ^ 64 - (- sint d) div 1000000" .
  then show "2 ^ 63 \<le> uint (uint64 (Milliseconds d))" using q2 by simp
qed

lemma drift_below_a_millisecond:
  assumes "- 1000000 < sint d" "sint d < 0"
  shows "uint64 (Milliseconds d) = 0"
  using assms by (simp add: uint64_same_bits Milliseconds_def sdiv_million_small)

lemma uint_drift_pos:
  assumes "0 \<le> sint d"
  shows "uint (uint64 (Milliseconds d)) = sint d div 1000000"
proof -
  have hi: "sint d < 2 ^ 63" using sint_lt [of d] by simp
  have "sint d div 1000000 < 2 ^ 64" using hi by simp
  moreover have "0 \<le> sint d div 1000000" using assms by simp
  ultimately show ?thesis
    by (simp add: uint_uint64 sint_Milliseconds sdiv_million_pos [OF assms])
qed

lemma createNewClientMeta_Inr: "\<exists>meta. createNewClientMeta b c = Inr meta"
  by (simp add: createNewClientMeta_def Let_def)

lemma createNewClientMeta_drift:
  "createNewClientMeta b c = Inr meta \<Longrightarrow>
   CM_ClockDrift meta = uint64 (Milliseconds (clockDrift c))"
  by (auto simp: createNewClientMeta_def Let_def)

text \<open>
  Claim C10, as stated, fails for a negative drift of less than a millisecond: a drift of
  minus one nanosecond has \<^verbatim>\<open>Milliseconds() = 0\<close>, since the division truncates towards zero,
  and the field is 0.
\<close>

theorem ClockDrift_negative_counterexample:
  "sint (clockDrift (ex_cannon\<lparr>clockDrift := - 1\<rparr>)) < 0 \<and>
   map_sum id CM_ClockDrift (createNewClientMeta ex_build (ex_cannon\<lparr>clockDrift := - 1\<rparr>)) = Inr 0"
  by (simp add: createNewClientMeta_def Let_def uint64_def Milliseconds_def
      signed_divide_int_def)

text \<open>
  Claim C10, amended. The \<^verbatim>\<open>ClockDrift\<close> field of the client meta equals
  \<^verbatim>\<open>uint64(clockDrift.Milliseconds())\<close>, that is the truncated millisecond count modulo
  \<open>2 ^ 64\<close>. For a drift of minus one millisecond or below the conversion wraps: the field is
  \<open>2 ^ 64\<close> minus the number of whole milliseconds, at least \<open>2 ^ 63\<close>. For a negative drift
  of less than a millisecond the field is 0, and for a drift that is not negative it is the
  number of whole milliseconds.
\<close>

theorem createNewClientMeta_ClockDrift_wraps:
  "\<exists>meta. createNewClientMeta b c = Inr meta \<and>
     CM_ClockDrift meta = uint64 (Milliseconds (clockDrift c)) \<and>
     uint (CM_ClockDrift meta) = (sint (clockDrift c) sdiv 1000000) mod 2 ^ 64 \<and>
     (sint (clockDrift c) \<le> - 1000000 \<longrightarrow>
        uint (CM_ClockDrift meta) = 2 ^ 64 - (- sint (clockDrift c)) div 1000000 \<and>
        2 ^ 63 \<le> uint (CM_ClockDrift meta)) \<and>
     (- 1000000 < sint (clockDrift c) \<and> sint (clockDrift c) < 0 \<longrightarrow> CM_ClockDrift meta = 0) \<and>
     (0 \<le> sint (clockDrift c) \<longrightarrow> uint (CM_ClockDrift meta) = sint (clockDrift c) div 1000000)"
proof -
  obtain meta where m: "createNewClientMeta b c = Inr meta"
    using createNewClientMeta_Inr by blast
  have d: "CM_ClockDrift meta = uint64 (Milliseconds (clockDrift c))"
    using m by (rule createNewClientMeta_drift)
  have "uint (CM_ClockDrift meta) = (sint (clockDrift c) sdiv 1000000) mod 2 ^ 64"
    by (simp only: d uint_uint64 sint_Milliseconds)
  with m d show ?thesis
    using uint_drift_neg [of "clockDrift c"] drift_below_a_millisecond [of "clockDrift c"]
      uint_drift_pos [of "clockDrift c"]
    by auto
qed

theorem createNewClientMeta_ClockDrift_wraps_witness:
  "sint (clockDrift (ex_cannon\<lparr>clockDrift := - 2500000\<rparr>)) \<le> - 1000000 \<and>
   (\<exists>meta. createNewClientMeta ex_build (ex_cannon\<lparr>clockDrift := - 2500000\<rparr>) = Inr meta \<and>
      uint (CM_ClockDrift meta) = 2 ^ 64 - 2)"
proof -
  have h: "sint (clockDrift (ex_cannon\<lparr>clockDrift := - 2500000\<rparr>)) = - 2500000" by simp
  show ?thesis
    using createNewClientMeta_ClockDrift_wraps [of ex_build "ex_cannon\<lparr>clockDrift := - 2500000\<rparr>"]
    unfolding h by auto
qed


section \<open>The clock-drift probe\<close>

text \<open>
  Claim C6. \<^verbatim>\<open>syncClockDrift\<close>, which \<^verbatim>\<open>startCrons\<close> registers with the scheduler under the
  interval \<^verbatim>\<open>5m\<close>, sets \<^verbatim>\<open>clockDrift\<close> to the clock offset of the NTP response and returns nil
  exactly when both the NTP query and the validation of the response succeed; when either
  fails it returns that error and leaves the \<^verbatim>\<open>Cannon\<close>, and so \<^verbatim>\<open>clockDrift\<close>, unchanged.
\<close>

theorem syncClockDrift_sets_drift:
  "(case syncClockDrift ntp_Query c of
      (fx, c', r) \<Rightarrow>
        (r = None \<longleftrightarrow>
           (\<exists>response. ntp_Query (NTPServer (Config c)) = Inr response \<and>
                       Response_Validate response = None)) \<and>
        (\<forall>response. ntp_Query (NTPServer (Config c)) = Inr response \<and>
                     Response_Validate response = None \<longrightarrow>
           r = None \<and> c' = c\<lparr>clockDrift := ClockOffset response\<rparr>) \<and>
        (\<forall>err. ntp_Query (NTPServer (Config c)) = Inl err \<longrightarrow> r = Some err \<and> c' = c) \<and>
        (\<forall>response err. ntp_Query (NTPServer (Config c)) = Inr response \<and>
                         Response_Validate response = Some err \<longrightarrow> r = Some err \<and> c' = c)) \<and>
   snd (startCrons_job ntp_Query c) = fst (snd (syncClockDrift ntp_Query c)) \<and>
   (scheduler_Do ''5m'' = None \<longrightarrow>
      (case startCrons scheduler_Do c of
         (fx, c', r) \<Rightarrow>
           r = None \<and>
           Scheduler_jobs (scheduler c') =
             Scheduler_jobs (scheduler c) @ [(''5m'', Job_syncClockDrift)] \<and>
           Scheduler_running (scheduler c') \<and> clockDrift c' = clockDrift c))"
  by (auto simp: syncClockDrift_def startCrons_job_def startCrons_def Let_def
      split: sum.splits option.splits)

theorem syncClockDrift_sets_drift_witness:
  "syncClockDrift ex_ntp_Query ex_cannon =
     ([Log \<lparr>Log_level = InfoLevel, Log_error = None,
             Log_fields = [(''drift'', FDuration 250000000)],
             Log_message = ''Updated clock drift''\<rparr>],
      ex_cannon\<lparr>clockDrift := 250000000\<rparr>, None) \<and>
    Scheduler_jobs (scheduler (fst (snd (startCrons (Env_scheduler_Do ex_env) ex_cannon)))) =
      [(''5m'', Job_syncClockDrift)]"
  using syncClockDrift_sets_drift [of ex_ntp_Query ex_cannon "Env_scheduler_Do ex_env"]
  by (auto simp: syncClockDrift_def ex_ntp_Query_def ex_env_def ex_cannon_def NewScheduler_def split: prod.splits)

section \<open>Construction\<close>

text \<open>
  Claim C5. \<^verbatim>\<open>New\<close> returns an error and no \<^verbatim>\<open>Cannon\<close> whenever the configuration is nil or
  its \<^verbatim>\<open>Validate\<close> fails (the error is then the one \<^verbatim>\<open>Validate\<close> returned); a \<^verbatim>\<open>Cannon\<close> is
  returned only for a configuration that is not nil and validates, and it holds that
  configuration.
\<close>

theorem New_rejects_bad_config:
  "(config = None \<longrightarrow> New deps lg config = Inl (Error ''config is required'')) \<and>
   (\<forall>cfg err. config = Some cfg \<and> Config_Validate deps cfg = Some err \<longrightarrow>
      New deps lg config = Inl err) \<and>
   (\<forall>c. New deps lg config = Inr c \<longrightarrow>
      (\<exists>cfg. config = Some cfg \<and> Config_Validate deps cfg = None \<and> Config c = cfg))"
  by (auto simp: New_def split: option.splits sum.splits)

theorem New_rejects_bad_config_witness:
  "New ex_deps (FieldLogger ''cannon'') None = Inl (Error ''config is required'') \<and>
   New ex_deps (FieldLogger ''cannon'') (Some (ex_config\<lparr>NTPServer := []\<rparr>)) =
     Inl (Error ''ntp server is required'') \<and>
   New ex_deps (FieldLogger ''cannon'') (Some ex_config) = Inr ex_cannon"
proof -
  have v: "Config_Validate ex_deps (ex_config\<lparr>NTPServer := []\<rparr>) = Some (Error ''ntp server is required'')"
    by (simp add: ex_deps_def)
  have ok: "New ex_deps (FieldLogger ''cannon'') (Some ex_config) = Inr ex_cannon"
    by (simp add: New_def ex_deps_def ex_config_def ex_cannon_def)
  show ?thesis
    using New_rejects_bad_config [of None ex_deps "FieldLogger ''cannon''"]
      New_rejects_bad_config [of "Some (ex_config\<lparr>NTPServer := []\<rparr>)" ex_deps "FieldLogger ''cannon''"]
      New_rejects_bad_config [of "Some ex_config" ex_deps "FieldLogger ''cannon''"]
      v ok
    by simp
qed

section \<open>Fan-out to the sinks\<close>

lemma sink_batches_append: "sink_batches (xs @ ys) = sink_batches xs @ sink_batches ys"
  by (induction xs rule: sink_batches.induct) simp_all

lemma log_entries_append: "log_entries (xs @ ys) = log_entries xs @ log_entries ys"
  by (induction xs rule: log_entries.induct) simp_all

lemma sink_batches_fanout:
  "sink_batches (handleNewDecoratedEvents_sinks ss events) = map (\<lambda>s. (s, events)) ss"
  by (induction ss) (simp_all add: sink_batches_append split: option.splits)

lemma log_entries_fanout:
  "log_entries (handleNewDecoratedEvents_sinks ss events) =
   map (\<lambda>s. sink_failure_entry s events)
     (filter (\<lambda>s. Sink_HandleNewDecoratedEvents s events \<noteq> None) ss)"
  by (induction ss) (auto simp: log_entries_append sink_failure_entry_def split: option.splits)

lemma metrics_loop_quiet:
  "sink_batches (fst (handleNewDecoratedEvents_metrics nw events)) = [] \<and>
   log_entries (fst (handleNewDecoratedEvents_metrics nw events)) = []"
  by (induction events) (auto split: option.splits prod.splits)

lemma metrics_loop_Some:
  "handleNewDecoratedEvents_metrics (Some nw) events =
   (map (\<lambda>e. Call_AddDecoratedEvent 1 e (Network_Name nw)) events, Return ())"
  by (induction events) simp_all

lemma metrics_loop_outcome:
  "snd (handleNewDecoratedEvents_metrics nw events) =
   (if nw = None \<and> events \<noteq> [] then Panic else Return ())"
  by (cases nw; cases events) (simp_all add: metrics_loop_Some)

lemma handleNewDecoratedEvents_fst:
  "fst (handleNewDecoratedEvents c events) =
   handleNewDecoratedEvents_sinks (sinks c) events @
   fst (handleNewDecoratedEvents_metrics (Metadata_Network (BeaconNode_Metadata (beacon c))) events)"
  by (simp add: handleNewDecoratedEvents_def Let_def split: prod.splits outcome.splits)

lemma handleNewDecoratedEvents_snd:
  "snd (handleNewDecoratedEvents c events) =
   (if Metadata_Network (BeaconNode_Metadata (beacon c)) = None \<and> events \<noteq> [] then Panic
    else Return None)"
proof -
  let ?nw = "Metadata_Network (BeaconNode_Metadata (beacon c))"
  obtain fx r where m: "handleNewDecoratedEvents_metrics ?nw events = (fx, r)"
    by (cases "handleNewDecoratedEvents_metrics ?nw events")
  have r: "r = (if ?nw = None \<and> events \<noteq> [] then Panic else Return ())"
    using metrics_loop_outcome [of ?nw events] m by simp
  show ?thesis
    unfolding handleNewDecoratedEvents_def Let_def m
    by (simp add: r)
qed

text \<open>
  Claim C1. For every batch of decorated events, \<^verbatim>\<open>handleNewDecoratedEvents\<close> calls
  \<^verbatim>\<open>HandleNewDecoratedEvents\<close> on every configured sink, in order and with the same batch;
  for each sink that returns an error that error is logged, the sinks after it still receive
  the batch, and \<^verbatim>\<open>handleNewDecoratedEvents\<close> itself returns nil. The return is reached when
  the beacon's network metadata is set, as it is once the readiness callback has run, or the
  batch is empty: the metric update after the fan-out dereferences the network.
\<close>

theorem handleNewDecoratedEvents_fans_out:
  "sink_batches (fst (handleNewDecoratedEvents c events)) = map (\<lambda>s. (s, events)) (sinks c) \<and>
   log_entries (fst (handleNewDecoratedEvents c events)) =
     map (\<lambda>s. sink_failure_entry s events)
       (filter (\<lambda>s. Sink_HandleNewDecoratedEvents s events \<noteq> None) (sinks c)) \<and>
   (Metadata_Network (BeaconNode_Metadata (beacon c)) \<noteq> None \<or> events = [] \<longrightarrow>
      snd (handleNewDecoratedEvents c events) = Return None)"
  by (simp add: handleNewDecoratedEvents_fst handleNewDecoratedEvents_snd sink_batches_append
      log_entries_append sink_batches_fanout log_entries_fanout metrics_loop_quiet)

theorem handleNewDecoratedEvents_fans_out_witness:
  "Metadata_Network (BeaconNode_Metadata (beacon ex_cannon)) \<noteq> None \<and>
   sink_batches (fst (handleNewDecoratedEvents ex_cannon [ex_event])) =
     [(ex_sink_failing, [ex_event]), (ex_sink_ok, [ex_event])] \<and>
   log_entries (fst (handleNewDecoratedEvents ex_cannon [ex_event])) =
     [\<lparr>Log_level = ErrorLevel, Log_error = Some (Error ''unreachable''),
       Log_fields = [(''sink'', FString ''http''), (''events'', FInt 1)],
       Log_message = ''Failed to send events to sink''\<rparr>] \<and>
   snd (handleNewDecoratedEvents ex_cannon [ex_event]) = Return None"
proof -
  have n: "Metadata_Network (BeaconNode_Metadata (beacon ex_cannon)) \<noteq> None"
    by (simp add: ex_cannon_def ex_beacon_def)
  have s: "sinks ex_cannon = [ex_sink_failing, ex_sink_ok]"
    by (simp add: ex_cannon_def)
  have f: "Sink_HandleNewDecoratedEvents ex_sink_failing [ex_event] = Some (Error ''unreachable'')"
    "Sink_HandleNewDecoratedEvents ex_sink_ok [ex_event] = None"
    "Sink_Type ex_sink_failing = ''http''"
    by (simp_all add: ex_sink_failing_def ex_sink_ok_def)
  show ?thesis
    using handleNewDecoratedEvents_fans_out [of ex_cannon "[ex_event]"] n
    by (simp add: s f sink_failure_entry_def)
qed

section \<open>Shutdown\<close>

lemma sinks_stopped_append: "sinks_stopped (xs @ ys) = sinks_stopped xs @ sinks_stopped ys"
  by (induction xs rule: sinks_stopped.induct) simp_all

lemma sinks_stopped_Start_calls: "sinks_stopped (map Call_Sink_Start ss) = []"
  by (induction ss) simp_all

lemma Start_sinks_all_ok:
  "\<forall>s \<in> set ss. Sink_Start s = None \<Longrightarrow> Start_sinks ss = (map Call_Sink_Start ss, None)"
  by (induction ss) simp_all

lemma Stop_sinks_calls:
  "sinks_stopped (fst (Stop_sinks ss)) =
   takeWhile (\<lambda>s. Sink_Stop s = None) ss @ take 1 (dropWhile (\<lambda>s. Sink_Stop s = None) ss)"
  by (induction ss) (auto split: option.splits prod.splits)

lemma Stop_sinks_result:
  "snd (Stop_sinks ss) =
   (case dropWhile (\<lambda>s. Sink_Stop s = None) ss of [] \<Rightarrow> None | s # rest \<Rightarrow> Sink_Stop s)"
  by (induction ss) (auto split: option.splits prod.splits)

lemma Start_shutdown_calls:
  "sinks_stopped (fst (Start_shutdown c (Some sig))) = sinks_stopped (fst (Stop_sinks (sinks c)))"
  by (simp add: Start_shutdown_def split: prod.splits)

lemma Start_shutdown_result:
  "snd (Start_shutdown c (Some sig)) = Return (snd (Stop_sinks (sinks c)))"
  by (simp add: Start_shutdown_def split: prod.splits)

lemma Start_reaches_shutdown:
  assumes "Env_scheduler_Do env ''5m'' = None"
    and "\<forall>s \<in> set (sinks c). Sink_Start s = None"
    and "Env_beacon_Start env = None"
  shows "sinks_stopped (fst (Start b env c)) = sinks_stopped (fst (Start_shutdown c (Env_signal env)))"
    and "snd (snd (Start b env c)) = snd (Start_shutdown c (Env_signal env))"
proof -
  let ?c5 = "c\<lparr>scheduler :=
               \<lparr>Scheduler_jobs = Scheduler_jobs (scheduler c) @ [(''5m'', Job_syncClockDrift)],
                Scheduler_running = True\<rparr>\<rparr>"
  have cr: "startCrons (Env_scheduler_Do env) c = ([Call_Scheduler_StartAsync], ?c5, None)"
    using assms(1) by (simp add: startCrons_def)
  have ss: "Start_sinks (sinks c) = (map Call_Sink_Start (sinks c), None)"
    using assms(2) by (simp add: Start_sinks_all_ok)
  have sh: "Start_shutdown ?c5 (Env_signal env) = Start_shutdown c (Env_signal env)"
    by (cases "Env_signal env") (simp_all add: Start_shutdown_def)
  obtain fx8 r where s8: "Start_shutdown c (Env_signal env) = (fx8, r)"
    by (cases "Start_shutdown c (Env_signal env)")
  show "sinks_stopped (fst (Start b env c)) = sinks_stopped (fst (Start_shutdown c (Env_signal env)))"
    unfolding Start_def ServeMetrics_def ServePProf_def startBeaconBlockProcessor_def cr
    by (simp add: Let_def ss sh s8 assms(3) sinks_stopped_append sinks_stopped_Start_calls
        split: option.splits)
  show "snd (snd (Start b env c)) = snd (Start_shutdown c (Env_signal env))"
    unfolding Start_def ServeMetrics_def ServePProf_def startBeaconBlockProcessor_def cr
    by (simp add: Let_def ss sh s8 assms(3) split: option.splits)
qed

text \<open>
  Claim C7, as stated, fails when the \<^verbatim>\<open>Stop\<close> of a sink returns an error: \<^verbatim>\<open>Start\<close> returns
  that error at once and the sinks after it are not stopped. Here the first of two sinks
  fails to stop and the second is never stopped.
\<close>

theorem Start_stops_every_sink_counterexample:
  "Env_signal ex_env = Some SIGINT \<and>
   sinks ex_cannon = [ex_sink_failing, ex_sink_ok] \<and>
   sinks_stopped (fst (Start ex_build ex_env ex_cannon)) = [ex_sink_failing] \<and>
   snd (snd (Start ex_build ex_env ex_cannon)) = Return (Some (Error ''flush failed''))"
  by (simp add: Start_def ServeMetrics_def startBeaconBlockProcessor_def startCrons_def
      Start_shutdown_def ex_env_def ex_cannon_def ex_config_def ex_sink_failing_def
      ex_sink_ok_def Let_def)

text \<open>
  Claim C7, amended. When \<^verbatim>\<open>Start\<close> has come to wait for a signal (the scheduler took the
  job, every sink and the beacon started) and \<^verbatim>\<open>SIGINT\<close> or \<^verbatim>\<open>SIGTERM\<close> arrives, it calls
  \<^verbatim>\<open>Stop\<close> on the configured sinks in order, up to and including the first whose \<^verbatim>\<open>Stop\<close>
  fails, and returns that error; if every \<^verbatim>\<open>Stop\<close> succeeds, every configured sink has
  been stopped and \<^verbatim>\<open>Start\<close> returns nil.
\<close>

theorem Start_stops_sinks_until_failure:
  assumes "Env_scheduler_Do env ''5m'' = None"
    and "\<forall>s \<in> set (sinks c). Sink_Start s = None"
    and "Env_beacon_Start env = None"
    and "Env_signal env = Some sig"
  shows "sinks_stopped (fst (Start b env c)) =
           takeWhile (\<lambda>s. Sink_Stop s = None) (sinks c) @
           take 1 (dropWhile (\<lambda>s. Sink_Stop s = None) (sinks c)) \<and>
         snd (snd (Start b env c)) =
           Return (case dropWhile (\<lambda>s. Sink_Stop s = None) (sinks c) of
                     [] \<Rightarrow> None | s # rest \<Rightarrow> Sink_Stop s) \<and>
         ((\<forall>s \<in> set (sinks c). Sink_Stop s = None) \<longrightarrow>
            sinks_stopped (fst (Start b env c)) = sinks c \<and>
            snd (snd (Start b env c)) = Return None)"
proof -
  have calls: "sinks_stopped (fst (Start b env c)) =
           takeWhile (\<lambda>s. Sink_Stop s = None) (sinks c) @
           take 1 (dropWhile (\<lambda>s. Sink_Stop s = None) (sinks c))"
    by (simp add: Start_reaches_shutdown(1) [OF assms(1-3)] assms(4) Start_shutdown_calls
        Stop_sinks_calls)
  have res: "snd (snd (Start b env c)) =
           Return (case dropWhile (\<lambda>s. Sink_Stop s = None) (sinks c) of
                     [] \<Rightarrow> None | s # rest \<Rightarrow> Sink_Stop s)"
    by (simp add: Start_reaches_shutdown(2) [OF assms(1-3)] assms(4) Start_shutdown_result
        Stop_sinks_result)
  have "sinks_stopped (fst (Start b env c)) = sinks c \<and> snd (snd (Start b env c)) = Return None"
    if "\<forall>s \<in> set (sinks c). Sink_Stop s = None"
  proof -
    from that have tw: "takeWhile (\<lambda>s. Sink_Stop s = None) (sinks c) = sinks c"
      and dw: "dropWhile (\<lambda>s. Sink_Stop s = None) (sinks c) = []"
      by simp_all
    show ?thesis unfolding calls res tw dw by simp
  qed
  with calls res show ?thesis by blast
qed

theorem Start_stops_sinks_until_failure_witness:
  "Env_scheduler_Do ex_env ''5m'' = None \<and>
   map Sink_Start (sinks (ex_cannon\<lparr>sinks := [ex_sink_ok, ex_sink_ok]\<rparr>)) = [None, None] \<and>
   Env_beacon_Start ex_env = None \<and>
   Env_signal ex_env = Some SIGINT \<and>
   sinks_stopped (fst (Start ex_build ex_env (ex_cannon\<lparr>sinks := [ex_sink_ok, ex_sink_ok]\<rparr>))) =
     [ex_sink_ok, ex_sink_ok] \<and>
   snd (snd (Start ex_build ex_env (ex_cannon\<lparr>sinks := [ex_sink_ok, ex_sink_ok]\<rparr>))) = Return None"
proof -
  have h1: "Env_scheduler_Do ex_env ''5m'' = None" by (simp add: ex_env_def)
  have h2: "\<forall>s \<in> set (sinks (ex_cannon\<lparr>sinks := [ex_sink_ok, ex_sink_ok]\<rparr>)). Sink_Start s = None"
    by (simp add: ex_sink_ok_def)
  have h3: "Env_beacon_Start ex_env = None" by (simp add: ex_env_def)
  have h4: "Env_signal ex_env = Some SIGINT" by (simp add: ex_env_def)
  have h5: "\<forall>s \<in> set (sinks (ex_cannon\<lparr>sinks := [ex_sink_ok, ex_sink_ok]\<rparr>)). Sink_Stop s = None"
    by (simp add: ex_sink_ok_def)
  show ?thesis
    using Start_stops_sinks_until_failure [OF h1 h2 h3 h4, of ex_build] h1 h2 h3 h4 h5
    by simp
qed

section \<open>The readiness callback\<close>

lemmas NewDeriver_defs =
  NewAttesterSlashingDeriver_def NewProposerSlashingDeriver_def NewVoluntaryExitDeriver_def
  NewDepositDeriver_def NewBLSToExecutionChangeDeriver_def NewExecutionTransactionDeriver_def
  NewDeriver_def NewCheckpointIterator_def

lemma onReady_ready:
  assumes "Metadata_Network (BeaconNode_Metadata (beacon c)) = Some nw"
  obtains ds where
    "onReady b deriver_Start c =
       (Log \<lparr>Log_level = InfoLevel, Log_error = None, Log_fields = [],
              Log_message = ''Internal beacon node is ready, firing up event derivers''\<rparr> #
          fst (startDerivers deriver_Start ds),
        c\<lparr>eventDerivers := Some ds\<rparr>,
        Return (snd (startDerivers deriver_Start ds)))"
    and "map D_kind ds =
       [AttesterSlashingDeriver, ProposerSlashingDeriver, VoluntaryExitDeriver, DepositDeriver,
        BLSToExecutionChangeDeriver, ExecutionTransactionDeriver]"
    and "map (\<lambda>d. It_cannonType (D_iterator d)) ds =
       [BEACON_API_ETH_V2_BEACON_BLOCK_ATTESTER_SLASHING,
        BEACON_API_ETH_V2_BEACON_BLOCK_PROPOSER_SLASHING,
        BEACON_API_ETH_V2_BEACON_BLOCK_VOLUNTARY_EXIT,
        BEACON_API_ETH_V2_BEACON_BLOCK_DEPOSIT,
        BEACON_API_ETH_V2_BEACON_BLOCK_BLS_TO_EXECUTION_CHANGE,
        BEACON_API_ETH_V2_BEACON_BLOCK_EXECUTION_TRANSACTION]"
    and "\<forall>d \<in> set ds.
           It_networkName (D_iterator d) = Network_Name nw \<and>
           It_networkID (D_iterator d) = Sprintf_d (Network_ID nw) \<and>
           It_checkpointName (D_iterator d) = ''finalized'' \<and>
           createNewClientMeta b c = Inr (D_clientMeta d)"
proof -
  obtain meta where m: "createNewClientMeta b c = Inr meta"
    using createNewClientMeta_Inr by blast
  show thesis
    by (rule that [where ds = "the (eventDerivers (fst (snd (onReady b deriver_Start c))))"])
      (simp_all add: onReady_def assms m Let_def NewDeriver_defs split: prod.splits)
qed

text \<open>
  Claim C4. When the readiness callback fires on a beacon that reports its network, exactly
  six event derivers are constructed, one per event-type tag (attester slashing, proposer
  slashing, voluntary exit, deposit, BLS-to-execution change, execution transaction, in this
  order), each with a checkpoint iterator of its own that is given that tag, the network
  name, the network id in decimal, and the checkpoint name \<^verbatim>\<open>finalized\<close>.
\<close>

theorem onReady_builds_six_derivers:
  assumes "Metadata_Network (BeaconNode_Metadata (beacon c)) = Some nw"
  shows "\<exists>ds. eventDerivers (fst (snd (onReady b deriver_Start c))) = Some ds \<and>
    length ds = 6 \<and>
    map D_kind ds =
      [AttesterSlashingDeriver, ProposerSlashingDeriver, VoluntaryExitDeriver, DepositDeriver,
       BLSToExecutionChangeDeriver, ExecutionTransactionDeriver] \<and>
    map (\<lambda>d. It_cannonType (D_iterator d)) ds =
      [BEACON_API_ETH_V2_BEACON_BLOCK_ATTESTER_SLASHING,
       BEACON_API_ETH_V2_BEACON_BLOCK_PROPOSER_SLASHING,
       BEACON_API_ETH_V2_BEACON_BLOCK_VOLUNTARY_EXIT,
       BEACON_API_ETH_V2_BEACON_BLOCK_DEPOSIT,
       BEACON_API_ETH_V2_BEACON_BLOCK_BLS_TO_EXECUTION_CHANGE,
       BEACON_API_ETH_V2_BEACON_BLOCK_EXECUTION_TRANSACTION] \<and>
    distinct (map D_iterator ds) \<and>
    (\<forall>d \<in> set ds.
       It_cannonType (D_iterator d) = Deriver_CannonType d \<and>
       It_networkName (D_iterator d) = Network_Name nw \<and>
       It_networkID (D_iterator d) = Sprintf_d (Network_ID nw) \<and>
       It_checkpointName (D_iterator d) = ''finalized'')"
proof -
  obtain ds where
    run: "onReady b deriver_Start c =
       (Log \<lparr>Log_level = InfoLevel, Log_error = None, Log_fields = [],
              Log_message = ''Internal beacon node is ready, firing up event derivers''\<rparr> #
          fst (startDerivers deriver_Start ds),
        c\<lparr>eventDerivers := Some ds\<rparr>,
        Return (snd (startDerivers deriver_Start ds)))"
    and kinds: "map D_kind ds =
       [AttesterSlashingDeriver, ProposerSlashingDeriver, VoluntaryExitDeriver, DepositDeriver,
        BLSToExecutionChangeDeriver, ExecutionTransactionDeriver]"
    and tags: "map (\<lambda>d. It_cannonType (D_iterator d)) ds =
       [BEACON_API_ETH_V2_BEACON_BLOCK_ATTESTER_SLASHING,
        BEACON_API_ETH_V2_BEACON_BLOCK_PROPOSER_SLASHING,
        BEACON_API_ETH_V2_BEACON_BLOCK_VOLUNTARY_EXIT,
        BEACON_API_ETH_V2_BEACON_BLOCK_DEPOSIT,
        BEACON_API_ETH_V2_BEACON_BLOCK_BLS_TO_EXECUTION_CHANGE,
        BEACON_API_ETH_V2_BEACON_BLOCK_EXECUTION_TRANSACTION]"
    and params: "\<forall>d \<in> set ds.
           It_networkName (D_iterator d) = Network_Name nw \<and>
           It_networkID (D_iterator d) = Sprintf_d (Network_ID nw) \<and>
           It_checkpointName (D_iterator d) = ''finalized'' \<and>
           createNewClientMeta b c = Inr (D_clientMeta d)"
    by (rule onReady_ready [OF assms])
  have len: "length ds = 6"
    using arg_cong [OF kinds, of length] by simp
  obtain d1 d2 d3 d4 d5 d6 where ds: "ds = [d1, d2, d3, d4, d5, d6]"
    using len by (auto simp: length_Suc_conv eval_nat_numeral)
  have dist: "distinct (map D_iterator ds)"
    using tags unfolding ds by auto
  have own: "\<forall>d \<in> set ds. It_cannonType (D_iterator d) = Deriver_CannonType d"
    using kinds tags unfolding ds by simp
  show ?thesis
    using run len kinds tags dist own params by auto
qed

theorem onReady_builds_six_derivers_witness:
  "Metadata_Network (BeaconNode_Metadata (beacon ex_cannon)) =
     Some \<lparr>Network_Name = ''mainnet'', Network_ID = 1\<rparr> \<and>
   (\<exists>ds. eventDerivers ex_ready = Some ds \<and> length ds = 6 \<and>
      map (\<lambda>d. It_networkName (D_iterator d)) ds = replicate 6 ''mainnet'' \<and>
      map (\<lambda>d. It_networkID (D_iterator d)) ds = replicate 6 ''1'' \<and>
      map (\<lambda>d. It_checkpointName (D_iterator d)) ds = replicate 6 ''finalized'')"
proof -
  let ?nw = "\<lparr>Network_Name = ''mainnet'', Network_ID = 1\<rparr>"
  have n: "Metadata_Network (BeaconNode_Metadata (beacon ex_cannon)) = Some ?nw"
    by (simp add: ex_cannon_def ex_beacon_def)
  have one: "Sprintf_d (Network_ID ?nw) = ''1''"
    by (simp add: Sprintf_d_def)
  obtain ds where ds: "eventDerivers ex_ready = Some ds" and len: "length ds = 6"
    and params: "\<forall>d \<in> set ds.
       It_cannonType (D_iterator d) = Deriver_CannonType d \<and>
       It_networkName (D_iterator d) = Network_Name ?nw \<and>
       It_networkID (D_iterator d) = Sprintf_d (Network_ID ?nw) \<and>
       It_checkpointName (D_iterator d) = ''finalized''"
    using onReady_builds_six_derivers [OF n, of ex_build "\<lambda>d. None"]
    unfolding ex_ready_def by blast
  have const: "map f ds = replicate 6 v" if "\<forall>d \<in> set ds. f d = v"
    for f :: "EventDeriver \<Rightarrow> string" and v
  proof -
    have "map f ds = map (\<lambda>d. v) ds" using that by simp
    then show ?thesis by (simp add: map_replicate_const len)
  qed
  have "map (\<lambda>d. It_networkName (D_iterator d)) ds = replicate 6 ''mainnet''"
    using params by (intro const) simp
  moreover have "map (\<lambda>d. It_networkID (D_iterator d)) ds = replicate 6 ''1''"
    using params one by (intro const) simp
  moreover have "map (\<lambda>d. It_checkpointName (D_iterator d)) ds = replicate 6 ''finalized''"
    using params by (intro const) simp
  ultimately show ?thesis
    using n ds len by blast
qed

section \<open>The derivers before readiness\<close>

lemma syncClockDrift_eventDerivers:
  "eventDerivers (fst (snd (syncClockDrift ntp_Query c))) = eventDerivers c"
  by (simp add: syncClockDrift_def Let_def split: sum.splits option.splits)

lemma startCrons_job_eventDerivers:
  "eventDerivers (snd (startCrons_job ntp_Query c)) = eventDerivers c"
  using syncClockDrift_eventDerivers [of ntp_Query c]
  by (auto simp: startCrons_job_def split: prod.splits option.splits)

lemma startCrons_eventDerivers:
  "eventDerivers (fst (snd (startCrons scheduler_Do c))) = eventDerivers c"
  by (simp add: startCrons_def split: option.splits)

lemma Start_shutdown_scheduler:
  "Start_shutdown (c\<lparr>scheduler := sch\<rparr>) signal = Start_shutdown c signal"
  by (cases signal) (simp_all add: Start_shutdown_def)

lemma Start_state:
  "fst (snd (Start b env c)) = c \<or>
   fst (snd (Start b env c)) = fst (snd (startCrons (Env_scheduler_Do env) c))"
proof -
  obtain fx6 r6 where s6: "Start_sinks (sinks c) = (fx6, r6)"
    by (cases "Start_sinks (sinks c)")
  obtain fx8 r8 where s8: "Start_shutdown c (Env_signal env) = (fx8, r8)"
    by (cases "Start_shutdown c (Env_signal env)")
  show ?thesis
    by (cases "PProfAddr (Config c)"; cases "Env_scheduler_Do env ''5m''"; cases r6;
        cases "Env_beacon_Start env")
      (simp_all add: Start_def ServeMetrics_def ServePProf_def startBeaconBlockProcessor_def
        startCrons_def Let_def s6 s8 Start_shutdown_scheduler)
qed

lemma Start_eventDerivers:
  "eventDerivers (fst (snd (Start b env c))) = eventDerivers c"
  using Start_state [of b env c] startCrons_eventDerivers [of "Env_scheduler_Do env" c]
  by auto

lemma derivers_touched_append:
  "derivers_touched (xs @ ys) = derivers_touched xs @ derivers_touched ys"
  by (induction xs rule: derivers_touched.induct) simp_all

lemma derivers_touched_fanout: "derivers_touched (handleNewDecoratedEvents_sinks ss events) = []"
  by (induction ss) (simp_all add: derivers_touched_append split: option.splits)

lemma derivers_touched_metrics:
  "derivers_touched (fst (handleNewDecoratedEvents_metrics nw events)) = []"
  by (induction events) (auto split: option.splits prod.splits)

lemma derivers_touched_handle:
  "derivers_touched (fst (handleNewDecoratedEvents c events)) = []"
  by (simp add: handleNewDecoratedEvents_fst derivers_touched_append derivers_touched_fanout
      derivers_touched_metrics)

lemma derivers_touched_Start_sinks: "derivers_touched (fst (Start_sinks ss)) = []"
  by (induction ss) (auto split: option.splits prod.splits)

lemma derivers_touched_Stop_sinks: "derivers_touched (fst (Stop_sinks ss)) = []"
  by (induction ss) (auto split: option.splits prod.splits)

lemma derivers_touched_shutdown: "derivers_touched (fst (Start_shutdown c signal)) = []"
  using derivers_touched_Stop_sinks [of "sinks c"]
  by (cases signal) (auto simp: Start_shutdown_def split: prod.splits)

lemma derivers_touched_syncClockDrift:
  "derivers_touched (fst (syncClockDrift ntp_Query c)) = []"
  by (simp add: syncClockDrift_def Let_def split: sum.splits option.splits)

lemma derivers_touched_startCrons_job:
  "derivers_touched (fst (startCrons_job ntp_Query c)) = []"
  using derivers_touched_syncClockDrift [of ntp_Query c]
  by (auto simp: startCrons_job_def derivers_touched_append split: prod.splits option.splits)

lemma derivers_touched_startCrons:
  "derivers_touched (fst (startCrons scheduler_Do c)) = []"
  by (simp add: startCrons_def split: option.splits)

lemma derivers_touched_Start: "derivers_touched (fst (Start b env c)) = []"
proof -
  obtain fx6 r6 where s6: "Start_sinks (sinks c) = (fx6, r6)"
    by (cases "Start_sinks (sinks c)")
  obtain fx8 r8 where s8: "Start_shutdown c (Env_signal env) = (fx8, r8)"
    by (cases "Start_shutdown c (Env_signal env)")
  have t6: "derivers_touched fx6 = []"
    using derivers_touched_Start_sinks [of "sinks c"] by (simp add: s6)
  have t8: "derivers_touched fx8 = []"
    using derivers_touched_shutdown [of c "Env_signal env"] by (simp add: s8)
  show ?thesis
    by (cases "PProfAddr (Config c)"; cases "Env_scheduler_Do env ''5m''"; cases r6;
        cases "Env_beacon_Start env")
      (simp_all add: Start_def ServeMetrics_def ServePProf_def startBeaconBlockProcessor_def
        startCrons_def Let_def s6 s8 t6 t8 Start_shutdown_scheduler derivers_touched_append)
qed

lemma derivers_touched_startDerivers:
  "set (derivers_touched (fst (startDerivers deriver_Start ds))) \<subseteq> set ds"
  by (induction ds) (auto simp: Let_def derivers_touched_append split: option.splits prod.splits)

lemma Start_shutdown_eventDerivers:
  "Start_shutdown (c\<lparr>eventDerivers := x\<rparr>) signal = Start_shutdown c signal"
  by (cases signal) (simp_all add: Start_shutdown_def)

lemma syncClockDrift_ignores_eventDerivers:
  "syncClockDrift ntp_Query (c\<lparr>eventDerivers := x\<rparr>) =
   (case syncClockDrift ntp_Query c of (fx, c', r) \<Rightarrow> (fx, c'\<lparr>eventDerivers := x\<rparr>, r))"
  by (simp add: syncClockDrift_def Let_def split: sum.splits option.splits)

lemma startCrons_job_ignores_eventDerivers:
  "startCrons_job ntp_Query (c\<lparr>eventDerivers := x\<rparr>) =
   (case startCrons_job ntp_Query c of (fx, c') \<Rightarrow> (fx, c'\<lparr>eventDerivers := x\<rparr>))"
  by (simp add: startCrons_job_def syncClockDrift_def Let_def split: sum.splits option.splits)

lemma startCrons_ignores_eventDerivers:
  "startCrons scheduler_Do (c\<lparr>eventDerivers := x\<rparr>) =
   (case startCrons scheduler_Do c of (fx, c', r) \<Rightarrow> (fx, c'\<lparr>eventDerivers := x\<rparr>, r))"
  by (simp add: startCrons_def split: option.splits)

lemma Start_ignores_eventDerivers:
  "Start b env (c\<lparr>eventDerivers := x\<rparr>) =
   (case Start b env c of (fx, c', r) \<Rightarrow> (fx, c'\<lparr>eventDerivers := x\<rparr>, r))"
proof -
  obtain fx6 r6 where s6: "Start_sinks (sinks c) = (fx6, r6)"
    by (cases "Start_sinks (sinks c)")
  obtain fx8 r8 where s8: "Start_shutdown c (Env_signal env) = (fx8, r8)"
    by (cases "Start_shutdown c (Env_signal env)")
  show ?thesis
    by (cases "PProfAddr (Config c)"; cases "Env_scheduler_Do env ''5m''"; cases r6;
        cases "Env_beacon_Start env")
      (simp_all add: Start_def ServeMetrics_def ServePProf_def startBeaconBlockProcessor_def
        startCrons_def Let_def s6 s8 Start_shutdown_scheduler Start_shutdown_eventDerivers)
qed

lemma createNewClientMeta_ignores_eventDerivers:
  "createNewClientMeta b (c\<lparr>eventDerivers := x\<rparr>) = createNewClientMeta b c"
  by (cases "Metadata_Network (BeaconNode_Metadata (beacon c))")
    (simp_all add: createNewClientMeta_def Let_def)

lemma onReady_ignores_eventDerivers:
  assumes "Metadata_Network (BeaconNode_Metadata (beacon c)) = Some nw"
  shows "onReady b deriver_Start (c\<lparr>eventDerivers := x\<rparr>) = onReady b deriver_Start c"
proof -
  obtain meta where m: "createNewClientMeta b c = Inr meta"
    using createNewClientMeta_Inr by blast
  show ?thesis
    unfolding onReady_def
    by (simp add: assms createNewClientMeta_ignores_eventDerivers m Let_def split_def
        del: startDerivers.simps)
qed

lemma onReady_no_network:
  assumes "Metadata_Network (BeaconNode_Metadata (beacon c)) = None"
  shows "derivers_touched (fst (onReady b deriver_Start c)) = []"
    and "fst (snd (onReady b deriver_Start c)) = c"
    and "snd (snd (onReady b deriver_Start c)) = Panic"
  by (simp_all add: onReady_def assms)

text \<open>
  Claim C8. The \<^verbatim>\<open>eventDerivers\<close> field of a \<^verbatim>\<open>Cannon\<close> is nil when \<^verbatim>\<open>New\<close> returns it, and
  it stays as it is until the readiness callback assigns the list of derivers: every other
  operation leaves the field unchanged, does not read it (its effects, its result and the
  rest of the state it returns are the same whatever the field holds) and registers with or
  starts no deriver. The callback does not read the old value either; on a beacon without
  network metadata it panics before assigning and touches no deriver, and otherwise it
  assigns the list and every deriver it registers with or starts is one of that list.
\<close>

theorem eventDerivers_nil_until_readiness:
  "(\<forall>c0. New deps lg config = Inr c0 \<longrightarrow> eventDerivers c0 = None) \<and>
   eventDerivers (fst (snd (Start b env c))) = eventDerivers c \<and>
   eventDerivers (fst (snd (startCrons scheduler_Do c))) = eventDerivers c \<and>
   eventDerivers (fst (snd (syncClockDrift ntp_Query c))) = eventDerivers c \<and>
   eventDerivers (snd (startCrons_job ntp_Query c)) = eventDerivers c \<and>
   derivers_touched (fst (Start b env c)) = [] \<and>
   derivers_touched (fst (ServeMetrics c)) = [] \<and>
   derivers_touched (fst (ServePProf c)) = [] \<and>
   derivers_touched (fst (startBeaconBlockProcessor c)) = [] \<and>
   derivers_touched (fst (startCrons scheduler_Do c)) = [] \<and>
   derivers_touched (fst (syncClockDrift ntp_Query c)) = [] \<and>
   derivers_touched (fst (startCrons_job ntp_Query c)) = [] \<and>
   derivers_touched (fst (handleNewDecoratedEvents c events)) = [] \<and>
   ServeMetrics (c\<lparr>eventDerivers := x\<rparr>) = ServeMetrics c \<and>
   ServePProf (c\<lparr>eventDerivers := x\<rparr>) = ServePProf c \<and>
   startBeaconBlockProcessor (c\<lparr>eventDerivers := x\<rparr>) = startBeaconBlockProcessor c \<and>
   createNewClientMeta b (c\<lparr>eventDerivers := x\<rparr>) = createNewClientMeta b c \<and>
   handleNewDecoratedEvents (c\<lparr>eventDerivers := x\<rparr>) events =
     handleNewDecoratedEvents c events \<and>
   syncClockDrift ntp_Query (c\<lparr>eventDerivers := x\<rparr>) =
     (case syncClockDrift ntp_Query c of (fx, c', r) \<Rightarrow> (fx, c'\<lparr>eventDerivers := x\<rparr>, r)) \<and>
   startCrons_job ntp_Query (c\<lparr>eventDerivers := x\<rparr>) =
     (case startCrons_job ntp_Query c of (fx, c') \<Rightarrow> (fx, c'\<lparr>eventDerivers := x\<rparr>)) \<and>
   startCrons scheduler_Do (c\<lparr>eventDerivers := x\<rparr>) =
     (case startCrons scheduler_Do c of (fx, c', r) \<Rightarrow> (fx, c'\<lparr>eventDerivers := x\<rparr>, r)) \<and>
   Start b env (c\<lparr>eventDerivers := x\<rparr>) =
     (case Start b env c of (fx, c', r) \<Rightarrow> (fx, c'\<lparr>eventDerivers := x\<rparr>, r)) \<and>
   (Metadata_Network (BeaconNode_Metadata (beacon c)) = None \<longrightarrow>
      derivers_touched (fst (onReady b deriver_Start c)) = [] \<and>
      fst (snd (onReady b deriver_Start c)) = c \<and>
      snd (snd (onReady b deriver_Start c)) = Panic) \<and>
   (Metadata_Network (BeaconNode_Metadata (beacon c)) \<noteq> None \<longrightarrow>
      onReady b deriver_Start (c\<lparr>eventDerivers := x\<rparr>) = onReady b deriver_Start c \<and>
      (\<exists>ds. eventDerivers (fst (snd (onReady b deriver_Start c))) = Some ds \<and>
            length ds = 6 \<and>
            set (derivers_touched (fst (onReady b deriver_Start c))) \<subseteq> set ds))"
proof -
  have new: "\<forall>c0. New deps lg config = Inr c0 \<longrightarrow> eventDerivers c0 = None"
    by (auto simp: New_def split: option.splits sum.splits)
  have kept: "eventDerivers (fst (snd (Start b env c))) = eventDerivers c"
    "eventDerivers (fst (snd (startCrons scheduler_Do c))) = eventDerivers c"
    "eventDerivers (fst (snd (syncClockDrift ntp_Query c))) = eventDerivers c"
    "eventDerivers (snd (startCrons_job ntp_Query c)) = eventDerivers c"
    by (rule Start_eventDerivers startCrons_eventDerivers syncClockDrift_eventDerivers
        startCrons_job_eventDerivers)+
  have untouched: "derivers_touched (fst (Start b env c)) = []"
    "derivers_touched (fst (ServeMetrics c)) = []"
    "derivers_touched (fst (ServePProf c)) = []"
    "derivers_touched (fst (startBeaconBlockProcessor c)) = []"
    "derivers_touched (fst (startCrons scheduler_Do c)) = []"
    "derivers_touched (fst (syncClockDrift ntp_Query c)) = []"
    "derivers_touched (fst (startCrons_job ntp_Query c)) = []"
    "derivers_touched (fst (handleNewDecoratedEvents c events)) = []"
    by (simp_all add: derivers_touched_Start derivers_touched_startCrons
        derivers_touched_syncClockDrift derivers_touched_startCrons_job derivers_touched_handle
        ServeMetrics_def ServePProf_def startBeaconBlockProcessor_def split: option.splits)
  have unread: "ServeMetrics (c\<lparr>eventDerivers := x\<rparr>) = ServeMetrics c"
    "ServePProf (c\<lparr>eventDerivers := x\<rparr>) = ServePProf c"
    "startBeaconBlockProcessor (c\<lparr>eventDerivers := x\<rparr>) = startBeaconBlockProcessor c"
    "createNewClientMeta b (c\<lparr>eventDerivers := x\<rparr>) = createNewClientMeta b c"
    "handleNewDecoratedEvents (c\<lparr>eventDerivers := x\<rparr>) events = handleNewDecoratedEvents c events"
    by (simp_all add: ServeMetrics_def ServePProf_def startBeaconBlockProcessor_def
        createNewClientMeta_ignores_eventDerivers handleNewDecoratedEvents_def)
  have unread_state: "syncClockDrift ntp_Query (c\<lparr>eventDerivers := x\<rparr>) =
     (case syncClockDrift ntp_Query c of (fx, c', r) \<Rightarrow> (fx, c'\<lparr>eventDerivers := x\<rparr>, r))"
    "startCrons_job ntp_Query (c\<lparr>eventDerivers := x\<rparr>) =
     (case startCrons_job ntp_Query c of (fx, c') \<Rightarrow> (fx, c'\<lparr>eventDerivers := x\<rparr>))"
    "startCrons scheduler_Do (c\<lparr>eventDerivers := x\<rparr>) =
     (case startCrons scheduler_Do c of (fx, c', r) \<Rightarrow> (fx, c'\<lparr>eventDerivers := x\<rparr>, r))"
    "Start b env (c\<lparr>eventDerivers := x\<rparr>) =
     (case Start b env c of (fx, c', r) \<Rightarrow> (fx, c'\<lparr>eventDerivers := x\<rparr>, r))"
    by (rule syncClockDrift_ignores_eventDerivers startCrons_job_ignores_eventDerivers
        startCrons_ignores_eventDerivers Start_ignores_eventDerivers)+
  have panic: "derivers_touched (fst (onReady b deriver_Start c)) = [] \<and>
      fst (snd (onReady b deriver_Start c)) = c \<and>
      snd (snd (onReady b deriver_Start c)) = Panic"
    if "Metadata_Network (BeaconNode_Metadata (beacon c)) = None"
    using onReady_no_network [OF that] by simp
  have ready: "onReady b deriver_Start (c\<lparr>eventDerivers := x\<rparr>) = onReady b deriver_Start c \<and>
      (\<exists>ds. eventDerivers (fst (snd (onReady b deriver_Start c))) = Some ds \<and>
            length ds = 6 \<and>
            set (derivers_touched (fst (onReady b deriver_Start c))) \<subseteq> set ds)"
    if "Metadata_Network (BeaconNode_Metadata (beacon c)) \<noteq> None"
  proof -
    from that obtain nw where nw: "Metadata_Network (BeaconNode_Metadata (beacon c)) = Some nw"
      by blast
    obtain ds where
      run: "onReady b deriver_Start c =
         (Log \<lparr>Log_level = InfoLevel, Log_error = None, Log_fields = [],
                Log_message = ''Internal beacon node is ready, firing up event derivers''\<rparr> #
            fst (startDerivers deriver_Start ds),
          c\<lparr>eventDerivers := Some ds\<rparr>,
          Return (snd (startDerivers deriver_Start ds)))"
      and kinds: "map D_kind ds =
         [AttesterSlashingDeriver, ProposerSlashingDeriver, VoluntaryExitDeriver, DepositDeriver,
          BLSToExecutionChangeDeriver, ExecutionTransactionDeriver]"
      by (rule onReady_ready [OF nw])
    have len: "length ds = 6"
      using arg_cong [OF kinds, of length] by simp
    have "set (derivers_touched (fst (onReady b deriver_Start c))) \<subseteq> set ds"
      using derivers_touched_startDerivers [of deriver_Start ds] by (simp add: run)
    moreover have "eventDerivers (fst (snd (onReady b deriver_Start c))) = Some ds"
      by (simp add: run)
    ultimately show ?thesis
      using onReady_ignores_eventDerivers [OF nw] len by blast
  qed
  have panic': "Metadata_Network (BeaconNode_Metadata (beacon c)) = None \<longrightarrow>
      derivers_touched (fst (onReady b deriver_Start c)) = [] \<and>
      fst (snd (onReady b deriver_Start c)) = c \<and>
      snd (snd (onReady b deriver_Start c)) = Panic"
    using panic by blast
  have ready': "Metadata_Network (BeaconNode_Metadata (beacon c)) \<noteq> None \<longrightarrow>
      onReady b deriver_Start (c\<lparr>eventDerivers := x\<rparr>) = onReady b deriver_Start c \<and>
      (\<exists>ds. eventDerivers (fst (snd (onReady b deriver_Start c))) = Some ds \<and>
            length ds = 6 \<and>
            set (derivers_touched (fst (onReady b deriver_Start c))) \<subseteq> set ds)"
    using ready by blast
  show ?thesis
    using new kept untouched unread unread_state panic' ready'
    by (intro conjI) assumption+
qed

theorem eventDerivers_nil_until_readiness_witness:
  "New ex_deps (FieldLogger ''cannon'') (Some ex_config) = Inr ex_cannon \<and>
   eventDerivers ex_cannon = None \<and>
   Metadata_Network (BeaconNode_Metadata (beacon ex_cannon)) \<noteq> None \<and>
   eventDerivers (fst (snd (Start ex_build ex_env ex_cannon))) = None \<and>
   (\<exists>ds. eventDerivers ex_ready = Some ds \<and> length ds = 6)"
proof -
  have ok: "New ex_deps (FieldLogger ''cannon'') (Some ex_config) = Inr ex_cannon"
    by (simp add: New_def ex_deps_def ex_config_def ex_cannon_def)
  have n: "Metadata_Network (BeaconNode_Metadata (beacon ex_cannon)) \<noteq> None"
    by (simp add: ex_cannon_def ex_beacon_def)
  note w = eventDerivers_nil_until_readiness [of ex_deps "FieldLogger ''cannon''" "Some ex_config"
      ex_build ex_env ex_cannon _ _ _ _ "\<lambda>d. None"]
  have nil: "eventDerivers ex_cannon = None"
    using w ok by blast
  have "eventDerivers (fst (snd (Start ex_build ex_env ex_cannon))) = None"
    using w nil by simp
  moreover have "\<exists>ds. eventDerivers ex_ready = Some ds \<and> length ds = 6"
    using w n unfolding ex_ready_def by blast
  ultimately show ?thesis
    using ok nil n by blast
qed

end
